theory Spec2Isabelle
  imports Main "HOL-Library.Sublist"
begin

section \<open>The Linear cleanup script (scripts/direct-linear-cleanup.py)\<close>

text \<open>
  The script talks to a remote GraphQL endpoint, prints progress lines and sleeps between
  tickets. The model makes all of that explicit: the remote is a parameter (a function from
  the requests made so far and the current request to a reply), every request, printed line
  and sleep is appended to a trace, and every Python exception is a value \<open>Inl e\<close>.
  The script has no \<^verbatim>\<open>try\<close> statement, so an exception raised anywhere leaves
  \<^verbatim>\<open>main\<close>.
\<close>

subsection \<open>Parsed JSON and the Python operations the script applies to it\<close>

text \<open>
  The value of \<^verbatim>\<open>response.json()\<close>. An object is an association list read with
  \<open>map_of\<close>; a number is an integer (the script only ever tests a number for being zero).
  Python's \<^verbatim>\<open>None\<close> is \<open>JNull\<close>.
\<close>

datatype json =
    JNull
  | JBool bool
  | JNum int
  | JStr string
  | JArr "json list"
  | JObj "(string \<times> json) list"

datatype error =
    TransportError
  | KeyError string
  | TypeError
  | PyException string

text \<open>\<^verbatim>\<open>v[k]\<close> for a string key \<open>k\<close>: only a dict can be subscripted with a string.\<close>

fun subscript :: "json \<Rightarrow> string \<Rightarrow> error + json" where
  "subscript (JObj kvs) k = (case map_of kvs k of None \<Rightarrow> Inl (KeyError k) | Some v \<Rightarrow> Inr v)"
| "subscript _ k = Inl TypeError"

text \<open>\<^verbatim>\<open>v[k1][k2]...\<close>, left to right, stopping at the first exception.\<close>

fun path :: "json \<Rightarrow> string list \<Rightarrow> error + json" where
  "path v [] = Inr v"
| "path v (k # ks) = (case subscript v k of Inl e \<Rightarrow> Inl e | Inr w \<Rightarrow> path w ks)"

fun is_substring :: "string \<Rightarrow> string \<Rightarrow> bool" where
  "is_substring k [] = (k = [])"
| "is_substring k (c # cs) = (prefix k (c # cs) \<or> is_substring k cs)"

text \<open>
  \<^verbatim>\<open>k in v\<close> for a string \<open>k\<close>: a key of a dict, an element of a list, a substring
  of a string; \<^verbatim>\<open>None\<close>, booleans and numbers are not iterable.
\<close>

fun py_in :: "string \<Rightarrow> json \<Rightarrow> error + bool" where
  "py_in k (JObj kvs) = Inr (k \<in> set (map fst kvs))"
| "py_in k (JArr vs) = Inr (JStr k \<in> set vs)"
| "py_in k (JStr s) = Inr (is_substring k s)"
| "py_in k _ = Inl TypeError"

text \<open>The values a \<^verbatim>\<open>for\<close> loop over \<open>v\<close> visits.\<close>

fun py_iter :: "json \<Rightarrow> error + json list" where
  "py_iter (JArr vs) = Inr vs"
| "py_iter (JObj kvs) = Inr (map (\<lambda>kv. JStr (fst kv)) kvs)"
| "py_iter (JStr s) = Inr (map (\<lambda>c. JStr [c]) s)"
| "py_iter _ = Inl TypeError"

text \<open>Truth value of \<open>v\<close> in \<^verbatim>\<open>if v:\<close>.\<close>

fun truthy :: "json \<Rightarrow> bool" where
  "truthy JNull = False"
| "truthy (JBool b) = b"
| "truthy (JNum n) = (n \<noteq> 0)"
| "truthy (JStr s) = (s \<noteq> [])"
| "truthy (JArr vs) = (vs \<noteq> [])"
| "truthy (JObj kvs) = (kvs \<noteq> [])"

subsection \<open>Requests, printed lines, the trace\<close>

text \<open>
  The four GraphQL documents of the script with their variables: the workflow-state query
  (name filter \<^verbatim>\<open>Canceled\<close>, no variables), the issue query, the \<^verbatim>\<open>issueUpdate\<close>
  mutation (issue id, state id) and the \<^verbatim>\<open>commentCreate\<close> mutation (issue id, body).
\<close>

datatype request =
    StatesQuery
  | IssueQuery string
  | IssueUpdate json json
  | CommentCreate json string

text \<open>
  What \<^verbatim>\<open>requests.post(...)\<close> followed by \<^verbatim>\<open>response.json()\<close> gives: an exception
  (connection failure, body that is not JSON) or the parsed body.
\<close>

datatype reply = Raised | Parsed json

type_synonym api = "request list \<Rightarrow> request \<Rightarrow> reply"

text \<open>
  The lines the script prints, one constructor per kind of \<^verbatim>\<open>print\<close> statement,
  carrying the values formatted into the line. \<open>Rule\<close> is the line of sixty \<^verbatim>\<open>=\<close>
  signs (with or without a blank line before it). Formatting a value never raises; the
  subscripts inside an f-string do, and are modelled where the line is printed.
\<close>

datatype message =
    Rule
  | Title
  | FoundState json
  | ErrorGetting string json
  | IssueInfo string json json
  | ErrorUpdating json
  | Updated json json
  | AddedComment
  | Phase1Header
  | Phase2Header
  | Processing string
  | SummaryHeader
  | SummarySuccess nat
  | SummaryFailed nat
  | FailedHeader
  | FailedItem string
  | Complete

datatype event = Post request | Print message | Sleep

type_synonym trace = "event list"

fun requests_of :: "trace \<Rightarrow> request list" where
  "requests_of [] = []"
| "requests_of (Post r # es) = r # requests_of es"
| "requests_of (_ # es) = requests_of es"

text \<open>A computation takes the trace so far and returns its result and the extended trace.\<close>

type_synonym 'a io = "trace \<Rightarrow> (error + 'a) \<times> trace"

definition ret :: "'a \<Rightarrow> 'a io" where
  "ret x = (\<lambda>tr. (Inr x, tr))"

definition lift :: "error + 'a \<Rightarrow> 'a io" where
  "lift r = (\<lambda>tr. (r, tr))"

definition io_bind :: "'a io \<Rightarrow> ('a \<Rightarrow> 'b io) \<Rightarrow> 'b io" where
  "io_bind m f = (\<lambda>tr. case m tr of (Inl e, tr') \<Rightarrow> (Inl e, tr') | (Inr x, tr') \<Rightarrow> f x tr')"

definition print_line :: "message \<Rightarrow> unit io" where
  "print_line m = (\<lambda>tr. (Inr (), tr @ [Print m]))"

definition print_lines :: "message list \<Rightarrow> unit io" where
  "print_lines ms = (\<lambda>tr. (Inr (), tr @ map Print ms))"

definition sleep :: "unit io" where
  "sleep = (\<lambda>tr. (Inr (), tr @ [Sleep]))"

definition post :: "api \<Rightarrow> request \<Rightarrow> json io" where
  "post api req = (\<lambda>tr.
     ((case api (requests_of tr) req of Raised \<Rightarrow> Inl TransportError | Parsed v \<Rightarrow> Inr v),
      tr @ [Post req]))"

subsection \<open>The configured ticket lists\<close>

definition WORKER_TRACE_TICKETS :: "string list" where
  "WORKER_TRACE_TICKETS =
     [''1M-610'', ''1M-611'', ''1M-612'', ''1M-613'', ''1M-614'',
      ''1M-615'', ''1M-616'', ''1M-617'', ''1M-618'', ''1M-619'',
      ''1M-620'', ''1M-488'', ''1M-466'', ''1M-467'']"

definition TRACK_TICKETS :: "string list" where
  "TRACK_TICKETS = [''1M-573'', ''1M-574'', ''1M-575'', ''1M-576'', ''1M-577'', ''1M-578'']"

subsection \<open>get_canceled_state_id\<close>

text \<open>
  The loop over the nodes: the first node whose \<^verbatim>\<open>["team"]["key"]\<close> equals
  \<^verbatim>\<open>"1M"\<close> is printed and its \<^verbatim>\<open>["id"]\<close> returned; when the nodes are exhausted
  the script raises \<^verbatim>\<open>Exception("Could not find Canceled state for team 1M")\<close>.
\<close>

fun find_state :: "json list \<Rightarrow> json io" where
  "find_state [] = lift (Inl (PyException ''Could not find Canceled state for team 1M''))"
| "find_state (state # rest) =
     io_bind (lift (path state [''team'', ''key''])) (\<lambda>key.
       if key = JStr ''1M'' then
         io_bind (lift (subscript state ''id'')) (\<lambda>state_id.
         io_bind (print_line (FoundState state_id)) (\<lambda>_.
         ret state_id))
       else find_state rest)"

definition get_canceled_state_id :: "api \<Rightarrow> json io" where
  "get_canceled_state_id api =
     io_bind (post api StatesQuery) (\<lambda>data.
     io_bind (lift (path data [''data'', ''workflowStates'', ''nodes''])) (\<lambda>nodes.
     io_bind (lift (py_iter nodes)) (\<lambda>states.
     find_state states)))"

subsection \<open>get_issue_id\<close>

definition get_issue_id :: "api \<Rightarrow> string \<Rightarrow> json io" where
  "get_issue_id api ticket_identifier =
     io_bind (post api (IssueQuery ticket_identifier)) (\<lambda>data.
     io_bind (lift (py_in ''errors'' data)) (\<lambda>has_errors.
       if has_errors then
         io_bind (lift (subscript data ''errors'')) (\<lambda>errs.
         io_bind (print_line (ErrorGetting ticket_identifier errs)) (\<lambda>_.
         ret JNull))
       else
         io_bind (lift (path data [''data'', ''issue''])) (\<lambda>issue.
         io_bind (lift (subscript issue ''title'')) (\<lambda>title.
         io_bind (lift (path issue [''state'', ''name''])) (\<lambda>state_name.
         io_bind (print_line (IssueInfo ticket_identifier title state_name)) (\<lambda>_.
         lift (subscript issue ''id'')))))))"

subsection \<open>update_issue_state\<close>

definition update_issue_state :: "api \<Rightarrow> json \<Rightarrow> json \<Rightarrow> string \<Rightarrow> bool io" where
  "update_issue_state api issue_id state_id comment_text =
     io_bind (post api (IssueUpdate issue_id state_id)) (\<lambda>data.
     io_bind (lift (py_in ''errors'' data)) (\<lambda>has_errors.
       if has_errors then
         io_bind (lift (subscript data ''errors'')) (\<lambda>errs.
         io_bind (print_line (ErrorUpdating errs)) (\<lambda>_.
         ret False))
       else
         io_bind (lift (path data [''data'', ''issueUpdate'', ''success''])) (\<lambda>success.
           if truthy success then
             io_bind (lift (path data [''data'', ''issueUpdate'', ''issue'', ''identifier''])) (\<lambda>identifier.
             io_bind (lift (path data [''data'', ''issueUpdate'', ''issue'', ''state'', ''name''])) (\<lambda>state_name.
             io_bind (print_line (Updated identifier state_name)) (\<lambda>_.
             io_bind (post api (CommentCreate issue_id comment_text)) (\<lambda>comment_data.
             io_bind (lift (path comment_data [''data'', ''commentCreate'', ''success''])) (\<lambda>comment_success.
             io_bind (if truthy comment_success then print_line AddedComment else ret ()) (\<lambda>_.
             ret True))))))
           else ret False)))"

subsection \<open>main\<close>

record batch_result =
  success_count :: nat
  failed_count :: nat
  failed_tickets :: "string list"

definition record_success :: "batch_result \<Rightarrow> batch_result" where
  "record_success b = b\<lparr>success_count := success_count b + 1\<rparr>"

definition record_failure :: "string \<Rightarrow> batch_result \<Rightarrow> batch_result" where
  "record_failure ticket b =
     b\<lparr>failed_count := failed_count b + 1, failed_tickets := failed_tickets b @ [ticket]\<rparr>"

text \<open>
  The body of the two \<^verbatim>\<open>for ticket in ...\<close> loops of \<^verbatim>\<open>main\<close>. The two bodies are
  the same text up to the comment string, so the model has one function with the comment as
  a parameter; the three local counters travel as a \<open>batch_result\<close>.
\<close>

definition process_ticket :: "api \<Rightarrow> json \<Rightarrow> string \<Rightarrow> string \<Rightarrow> batch_result \<Rightarrow> batch_result io" where
  "process_ticket api canceled_state_id comment_text ticket b =
     io_bind (print_line (Processing ticket)) (\<lambda>_.
     io_bind (get_issue_id api ticket) (\<lambda>issue_id.
     io_bind
       (if truthy issue_id then
          io_bind (update_issue_state api issue_id canceled_state_id comment_text) (\<lambda>ok.
          ret (if ok then record_success b else record_failure ticket b))
        else ret (record_failure ticket b)) (\<lambda>b'.
     io_bind sleep (\<lambda>_.
     ret b'))))"

fun process_tickets :: "api \<Rightarrow> json \<Rightarrow> string \<Rightarrow> string list \<Rightarrow> batch_result \<Rightarrow> batch_result io" where
  "process_tickets api canceled_state_id comment_text [] b = ret b"
| "process_tickets api canceled_state_id comment_text (ticket # tickets) b =
     io_bind (process_ticket api canceled_state_id comment_text ticket b)
       (process_tickets api canceled_state_id comment_text tickets)"

text \<open>
  \<^verbatim>\<open>main\<close> returns nothing in the source; the model returns the three counters as they
  are when the summary is printed. They are created after \<open>get_canceled_state_id\<close> has
  returned. A run of the script is \<open>main api []\<close>.
\<close>

definition main :: "api \<Rightarrow> batch_result io" where
  "main api =
     io_bind (print_lines [Rule, Title, Rule]) (\<lambda>_.
     io_bind (get_canceled_state_id api) (\<lambda>canceled_state_id.
     io_bind (print_lines [Rule, Phase1Header, Rule]) (\<lambda>_.
     io_bind (process_tickets api canceled_state_id
                ''Archived as test pollution - cleanup operation 2025-12-04''
                WORKER_TRACE_TICKETS
                \<lparr>success_count = 0, failed_count = 0, failed_tickets = []\<rparr>) (\<lambda>b1.
     io_bind (print_lines [Rule, Phase2Header, Rule]) (\<lambda>_.
     io_bind (process_tickets api canceled_state_id
                ''Closed as duplicate tracking ticket - cleanup operation 2025-12-04''
                TRACK_TICKETS b1) (\<lambda>b.
     io_bind (print_lines [Rule, SummaryHeader, Rule,
                SummarySuccess (success_count b), SummaryFailed (failed_count b)]) (\<lambda>_.
     io_bind (if failed_tickets b \<noteq> []
              then print_lines (FailedHeader # map FailedItem (failed_tickets b))
              else ret ()) (\<lambda>_.
     io_bind (print_line Complete) (\<lambda>_.
     ret b)))))))))"

subsection \<open>Reading a trace\<close>

text \<open>
  The tickets of the issue queries among some requests, in order, and the test for a
  state mutation.
\<close>

fun resolved :: "request list \<Rightarrow> string list" where
  "resolved [] = []"
| "resolved (IssueQuery t # rs) = t # resolved rs"
| "resolved (_ # rs) = resolved rs"

fun is_update :: "request \<Rightarrow> bool" where
  "is_update (IssueUpdate i s) = True"
| "is_update _ = False"

text \<open>
  The configured tickets with the comment of their phase, in the order \<^verbatim>\<open>main\<close> takes
  them. An attempt at a ticket, made after the requests \<open>earlier\<close>, is its issue query,
  then possibly one state mutation of the issue id that \<open>get_issue_id\<close> returns for the
  ticket at that point (a truthy one) to the resolved state id, then possibly one comment on
  the same issue with the phase's text, and nothing else. \<open>attempts\<close> is one attempt after
  the other, each made after all the requests before it. An attempt that reached the comment
  has three requests. \<open>failed_of\<close> lists the tickets whose attempt did not reach the
  comment.
\<close>

definition configured_tickets :: "(string \<times> string) list" where
  "configured_tickets =
     map (\<lambda>t. (t, ''Archived as test pollution - cleanup operation 2025-12-04'')) WORKER_TRACE_TICKETS
     @ map (\<lambda>t. (t, ''Closed as duplicate tracking ticket - cleanup operation 2025-12-04''))
         TRACK_TICKETS"

definition attempt :: "api \<Rightarrow> json \<Rightarrow> request list \<Rightarrow> string \<times> string \<Rightarrow> request list \<Rightarrow> bool" where
  "attempt api sid earlier tc seg =
     (seg = [IssueQuery (fst tc)]
      \<or> (case fst (get_issue_id api (fst tc) (map Post earlier)) of
            Inl e \<Rightarrow> False
          | Inr i \<Rightarrow>
              truthy i \<and>
              (seg = [IssueQuery (fst tc), IssueUpdate i sid]
               \<or> seg = [IssueQuery (fst tc), IssueUpdate i sid, CommentCreate i (snd tc)])))"

fun attempts :: "api \<Rightarrow> json \<Rightarrow> request list \<Rightarrow> (string \<times> string) list \<Rightarrow> request list list \<Rightarrow> bool" where
  "attempts api sid earlier [] [] = True"
| "attempts api sid earlier (tc # tcs) (seg # segs) =
     (attempt api sid earlier tc seg \<and> attempts api sid (earlier @ seg) tcs segs)"
| "attempts api sid earlier _ _ = False"

definition commented :: "request list \<Rightarrow> bool" where
  "commented seg = (length seg = 3)"

definition failed_of :: "(string \<times> string) list \<Rightarrow> request list list \<Rightarrow> string list" where
  "failed_of tcs segs = map (\<lambda>p. fst (fst p)) (filter (\<lambda>p. \<not> commented (snd p)) (zip tcs segs))"

subsection \<open>A sample remote\<close>

text \<open>
  Replies in the shape the four documents select, and a remote built from them: three
  \<^verbatim>\<open>Canceled\<close> states (one of another team, two of team \<^verbatim>\<open>1M\<close>); ticket
  \<^verbatim>\<open>1M-611\<close> does not exist, the state mutation of \<^verbatim>\<open>1M-613\<close> reports
  \<^verbatim>\<open>success = false\<close>, that of \<^verbatim>\<open>1M-615\<close> reports errors, and the comment on
  \<^verbatim>\<open>1M-617\<close> reports \<^verbatim>\<open>success = false\<close>. The internal id of a ticket is its
  reference.
\<close>

definition obj_data :: "json \<Rightarrow> json" where
  "obj_data v = JObj [(''data'', v)]"

definition state_node :: "string \<Rightarrow> string \<Rightarrow> json" where
  "state_node state_id team_key =
     JObj [(''id'', JStr state_id), (''name'', JStr ''Canceled''),
           (''team'', JObj [(''key'', JStr team_key)])]"

definition states_reply :: "json list \<Rightarrow> json" where
  "states_reply nodes = obj_data (JObj [(''workflowStates'', JObj [(''nodes'', JArr nodes)])])"

definition issue_reply :: "json \<Rightarrow> string \<Rightarrow> json" where
  "issue_reply issue_id ticket =
     obj_data (JObj [(''issue'',
       JObj [(''id'', issue_id), (''identifier'', JStr ticket), (''title'', JStr ''Test''),
             (''state'', JObj [(''name'', JStr ''Todo'')])])])"

definition errors_reply :: json where
  "errors_reply = JObj [(''errors'', JArr [JObj [(''message'', JStr ''Entity not found'')]])]"

definition update_reply :: "bool \<Rightarrow> json \<Rightarrow> json" where
  "update_reply ok ident =
     obj_data (JObj [(''issueUpdate'',
       JObj [(''success'', JBool ok),
             (''issue'', JObj [(''identifier'', ident),
                               (''state'', JObj [(''name'', JStr ''Canceled'')])])])])"

definition comment_reply :: "bool \<Rightarrow> json" where
  "comment_reply ok = obj_data (JObj [(''commentCreate'', JObj [(''success'', JBool ok)])])"

definition api_ok :: api where
  "api_ok earlier req =
     (case req of
        StatesQuery \<Rightarrow>
          Parsed (states_reply [state_node ''s0'' ''ENG'', state_node ''s1'' ''1M'',
                                state_node ''s2'' ''1M''])
      | IssueQuery t \<Rightarrow>
          if t = ''1M-611'' then Parsed errors_reply else Parsed (issue_reply (JStr t) t)
      | IssueUpdate i s \<Rightarrow>
          if i = JStr ''1M-613'' then Parsed (update_reply False i)
          else if i = JStr ''1M-615'' then Parsed errors_reply
          else Parsed (update_reply True i)
      | CommentCreate i c \<Rightarrow> Parsed (comment_reply (i \<noteq> JStr ''1M-617'')))"

text \<open>The same remote with no \<^verbatim>\<open>Canceled\<close> state for team \<^verbatim>\<open>1M\<close>.\<close>

definition api_no_state :: api where
  "api_no_state earlier req =
     (case req of
        StatesQuery \<Rightarrow> Parsed (states_reply [state_node ''s0'' ''ENG'', state_node ''s3'' ''OPS''])
      | _ \<Rightarrow> api_ok earlier req)"

text \<open>
  The sample remote with a transport failure on one request, with issues whose \<^verbatim>\<open>id\<close>
  is null, and with a null \<^verbatim>\<open>issue\<close> in an otherwise error-free reply.
\<close>

definition api_drop :: "request \<Rightarrow> api" where
  "api_drop failing earlier req = (if req = failing then Raised else api_ok earlier req)"

definition api_null_id :: api where
  "api_null_id earlier req =
     (case req of
        IssueQuery t \<Rightarrow> Parsed (issue_reply JNull t)
      | _ \<Rightarrow> api_ok earlier req)"

definition api_null_issue :: api where
  "api_null_issue earlier req =
     (case req of
        IssueQuery t \<Rightarrow> Parsed (obj_data (JObj [(''issue'', JNull)]))
      | _ \<Rightarrow> api_ok earlier req)"

section \<open>Properties\<close>

subsection \<open>Basic facts about traces and computations\<close>

lemmas io_defs = ret_def lift_def io_bind_def print_line_def print_lines_def sleep_def post_def

lemma requests_of_append: "requests_of (xs @ ys) = requests_of xs @ requests_of ys"
  by (induction xs rule: requests_of.induct) simp_all

lemma requests_of_print: "requests_of (map Print ms) = []"
  by (induction ms) simp_all

lemma resolved_append: "resolved (xs @ ys) = resolved xs @ resolved ys"
  by (induction xs rule: resolved.induct) simp_all

lemma io_bind_Inr:
  assumes "io_bind m f tr = (Inr y, tr')"
  obtains x tr1 where "m tr = (Inr x, tr1)" and "f x tr1 = (Inr y, tr')"
  using assms by (auto simp: io_bind_def split: prod.splits sum.splits)

lemma find_state_requests: "requests_of (snd (find_state states tr)) = requests_of tr"
  by (induction states)
     (simp_all add: io_defs requests_of_append split: sum.splits)

lemma get_canceled_state_id_requests:
  "requests_of (snd (get_canceled_state_id api tr)) = requests_of tr @ [StatesQuery]"
  by (simp add: get_canceled_state_id_def io_defs requests_of_append find_state_requests
           split: sum.splits)

lemma get_issue_id_requests:
  "requests_of (snd (get_issue_id api t tr)) = requests_of tr @ [IssueQuery t]"
  by (simp add: get_issue_id_def io_defs requests_of_append split: sum.splits prod.splits)

lemma update_issue_state_requests:
  "requests_of (snd (update_issue_state api i s c tr)) = requests_of tr @ [IssueUpdate i s]
   \<or> requests_of (snd (update_issue_state api i s c tr)) = requests_of tr @ [IssueUpdate i s, CommentCreate i c]"
  by (simp add: update_issue_state_def io_defs requests_of_append split: sum.splits prod.splits)

lemma process_ticket_unfold:
  "process_ticket api s c t b tr =
     (case get_issue_id api t (tr @ [Print (Processing t)]) of
        (Inl e, tr1) \<Rightarrow> (Inl e, tr1)
      | (Inr i, tr1) \<Rightarrow>
          if truthy i then
            (case update_issue_state api i s c tr1 of
               (Inl e, tr2) \<Rightarrow> (Inl e, tr2)
             | (Inr ok, tr2) \<Rightarrow>
                 (Inr (if ok then record_success b else record_failure t b), tr2 @ [Sleep]))
          else (Inr (record_failure t b), tr1 @ [Sleep]))"
  by (simp add: process_ticket_def io_defs split: prod.splits sum.splits)

lemma process_ticket_cases:
  assumes "process_ticket api s c t b tr = (Inr b', tr')"
  shows "(b' = record_success b \<or> b' = record_failure t b)
       \<and> (\<exists>rs. requests_of tr' = requests_of tr @ IssueQuery t # rs
              \<and> resolved rs = [] \<and> length (filter is_update rs) \<le> 1)"
proof -
  from assms obtain i tr1 where
    g: "get_issue_id api t (tr @ [Print (Processing t)]) = (Inr i, tr1)"
    by (auto simp: process_ticket_unfold split: prod.splits sum.splits)
  from g have r1: "requests_of tr1 = requests_of tr @ [IssueQuery t]"
    using get_issue_id_requests [of api t "tr @ [Print (Processing t)]"]
    by (simp add: requests_of_append)
  show ?thesis
  proof (cases "truthy i")
    case False
    with assms g have "b' = record_failure t b" and "tr' = tr1 @ [Sleep]"
      by (auto simp: process_ticket_unfold)
    with r1 show ?thesis by (simp add: requests_of_append)
  next
    case True
    with assms g obtain ok tr2 where
      u: "update_issue_state api i s c tr1 = (Inr ok, tr2)" and
      b': "b' = (if ok then record_success b else record_failure t b)" and
      tr': "tr' = tr2 @ [Sleep]"
      by (auto simp: process_ticket_unfold split: prod.splits sum.splits)
    from update_issue_state_requests [of api i s c tr1] u
    have "requests_of tr2 = requests_of tr1 @ [IssueUpdate i s]
        \<or> requests_of tr2 = requests_of tr1 @ [IssueUpdate i s, CommentCreate i c]"
      by simp
    with r1 tr' b' show ?thesis
      by (auto simp: requests_of_append)
  qed
qed

lemma process_tickets_inv:
  "process_tickets api s c ts b tr = (Inr b', tr') \<Longrightarrow>
     success_count b' + failed_count b' = success_count b + failed_count b + length ts
   \<and> (\<exists>fs. failed_tickets b' = failed_tickets b @ fs \<and> subseq fs ts
          \<and> failed_count b' = failed_count b + length fs)
   \<and> resolved (requests_of tr') = resolved (requests_of tr) @ ts
   \<and> length (filter is_update (requests_of tr'))
       \<le> length (filter is_update (requests_of tr)) + length ts"
proof (induction ts arbitrary: b tr)
  case Nil
  then show ?case by (simp add: ret_def)
next
  case (Cons t ts)
  from Cons.prems obtain b1 tr1 where
    step: "process_ticket api s c t b tr = (Inr b1, tr1)" and
    rest: "process_tickets api s c ts b1 tr1 = (Inr b', tr')"
    by (auto elim!: io_bind_Inr)
  from process_ticket_cases [OF step] obtain rs where
    b1: "b1 = record_success b \<or> b1 = record_failure t b" and
    rs: "requests_of tr1 = requests_of tr @ IssueQuery t # rs" "resolved rs = []"
        "length (filter is_update rs) \<le> 1"
    by blast
  note IH = Cons.IH [OF rest]
  from IH obtain fs where
    fs: "failed_tickets b' = failed_tickets b1 @ fs" "subseq fs ts"
        "failed_count b' = failed_count b1 + length fs"
    by blast
  from b1 show ?case
  proof
    assume s: "b1 = record_success b"
    have "subseq fs (t # ts)" using fs(2) by (rule list_emb_Cons)
    with s IH fs rs show ?thesis
      by (auto simp: record_success_def resolved_append)
  next
    assume f: "b1 = record_failure t b"
    have "subseq (t # fs) (t # ts)" using fs(2) by simp
    with f IH fs rs show ?thesis
      by (auto simp: record_failure_def resolved_append)
  qed
qed


lemmas reply_defs = obj_data_def state_node_def states_reply_def issue_reply_def errors_reply_def
  update_reply_def comment_reply_def

lemma map_of_fst: "map_of kvs k = Some v \<Longrightarrow> k \<in> fst ` set kvs"
  by (metis map_of_eq_None_iff option.distinct(1))

lemma get_issue_id_errors:
  assumes "api (requests_of tr) (IssueQuery t) = Parsed (JObj kvs)"
    and "map_of kvs ''errors'' = Some errs"
  shows "get_issue_id api t tr = (Inr JNull, tr @ [Post (IssueQuery t), Print (ErrorGetting t errs)])"
  using assms map_of_fst [OF assms(2)]
  by (simp add: get_issue_id_def io_defs)

lemma update_issue_state_errors:
  assumes "api (requests_of tr) (IssueUpdate i s) = Parsed (JObj kvs)"
    and "map_of kvs ''errors'' = Some errs"
  shows "update_issue_state api i s c tr = (Inr False, tr @ [Post (IssueUpdate i s), Print (ErrorUpdating errs)])"
  using assms map_of_fst [OF assms(2)]
  by (simp add: update_issue_state_def io_defs)

lemma update_issue_state_falsy:
  assumes "api (requests_of tr) (IssueUpdate i s) = Parsed data"
    and "py_in ''errors'' data = Inr False"
    and "path data [''data'', ''issueUpdate'', ''success''] = Inr v"
    and "\<not> truthy v"
  shows "update_issue_state api i s c tr = (Inr False, tr @ [Post (IssueUpdate i s)])"
  using assms
  by (simp add: update_issue_state_def io_defs)

lemma process_tickets_failed_grow:
  assumes "process_tickets api s c ts b tr = (Inr b', tr')"
  shows "set (failed_tickets b) \<subseteq> set (failed_tickets b')"
  using process_tickets_inv [OF assms] by auto

subsection \<open>Facts about the loop over the workflow states\<close>

lemma find_state_fail_trace:
  "fst (find_state states tr) = Inl e \<Longrightarrow> snd (find_state states tr) = tr"
  by (induction states) (auto simp: io_defs split: sum.splits if_splits)

lemma find_state_fst: "fst (find_state states tr) = fst (find_state states [])"
  by (induction states) (auto simp: io_defs split: sum.splits if_splits)

lemma find_state_skip:
  "\<forall>n\<in>set before. \<exists>k. path n [''team'', ''key''] = Inr k \<and> k \<noteq> JStr ''1M'' \<Longrightarrow>
   find_state (before @ rest) tr = find_state rest tr"
  by (induction before) (auto simp: io_defs)

lemma find_state_hit:
  "path node [''team'', ''key''] = Inr (JStr ''1M'') \<Longrightarrow> subscript node ''id'' = Inr v \<Longrightarrow>
   find_state (node # rest) tr = (Inr v, tr @ [Print (FoundState v)])"
  by (simp add: io_defs)

lemma find_state_Inr:
  "find_state states tr = (Inr v, tr') \<Longrightarrow>
   \<exists>node\<in>set states. path node [''team'', ''key''] = Inr (JStr ''1M'') \<and> subscript node ''id'' = Inr v"
proof (induction states)
  case Nil
  then show ?case by (simp add: io_defs)
next
  case (Cons state rest)
  show ?case
  proof (cases "path state [''team'', ''key'']")
    case (Inl e)
    with Cons.prems show ?thesis by (simp add: io_defs)
  next
    case (Inr key)
    show ?thesis
    proof (cases "key = JStr ''1M''")
      case True
      with Inr Cons.prems have "subscript state ''id'' = Inr v"
        by (auto simp: io_defs split: sum.splits)
      with Inr True show ?thesis by simp
    next
      case False
      with Inr Cons.prems have "find_state rest tr = (Inr v, tr')"
        by (simp add: io_defs)
      from Cons.IH [OF this] show ?thesis by auto
    qed
  qed
qed

lemma find_state_none:
  "\<forall>n\<in>set states. \<exists>k. path n [''team'', ''key''] = Inr k \<and> k \<noteq> JStr ''1M'' \<Longrightarrow>
   find_state states tr = (Inl (PyException ''Could not find Canceled state for team 1M''), tr)"
  using find_state_skip [of states "[]" tr] by (simp add: lift_def)

lemma find_state_find:
  "\<forall>n\<in>set states. \<exists>k i. path n [''team'', ''key''] = Inr k \<and> subscript n ''id'' = Inr i \<Longrightarrow>
   fst (find_state states tr) =
     (case find (\<lambda>n. path n [''team'', ''key''] = Inr (JStr ''1M'')) states of
        None \<Rightarrow> Inl (PyException ''Could not find Canceled state for team 1M'')
      | Some n \<Rightarrow> subscript n ''id'')"
  by (induction states) (auto simp: io_defs)

lemma get_canceled_state_id_unfold:
  "get_canceled_state_id api tr =
     (case api (requests_of tr) StatesQuery of
        Raised \<Rightarrow> (Inl TransportError, tr @ [Post StatesQuery])
      | Parsed data \<Rightarrow>
          (case path data [''data'', ''workflowStates'', ''nodes''] of
             Inl e \<Rightarrow> (Inl e, tr @ [Post StatesQuery])
           | Inr nodes \<Rightarrow>
               (case py_iter nodes of
                  Inl e \<Rightarrow> (Inl e, tr @ [Post StatesQuery])
                | Inr states \<Rightarrow> find_state states (tr @ [Post StatesQuery]))))"
  by (simp add: get_canceled_state_id_def io_bind_def lift_def post_def
           split: reply.splits sum.splits)

lemma find_state_non_array:
  "py_iter nodes = Inr states \<Longrightarrow> find_state states tr = (Inr v, tr') \<Longrightarrow> nodes = JArr states"
  by (cases nodes; cases states) (auto simp: io_defs)

lemma get_canceled_state_id_fail_trace:
  "fst (get_canceled_state_id api tr) = Inl e \<Longrightarrow>
   snd (get_canceled_state_id api tr) = tr @ [Post StatesQuery]"
  by (auto simp: get_canceled_state_id_unfold find_state_fail_trace
           split: reply.splits sum.splits)

lemma get_canceled_state_id_fst:
  "requests_of tr = requests_of tr2 \<Longrightarrow>
   fst (get_canceled_state_id api tr) = fst (get_canceled_state_id api tr2)"
  using find_state_fst [of _ "tr @ [Post StatesQuery]"] find_state_fst [of _ "tr2 @ [Post StatesQuery]"]
  by (simp add: get_canceled_state_id_unfold split: reply.splits sum.splits)

lemma get_issue_id_raised:
  "api (requests_of tr) (IssueQuery t) = Raised \<Longrightarrow>
   get_issue_id api t tr = (Inl TransportError, tr @ [Post (IssueQuery t)])"
  by (simp add: get_issue_id_def io_defs)

lemma update_issue_state_raised:
  "api (requests_of tr) (IssueUpdate i s) = Raised \<Longrightarrow>
   update_issue_state api i s c tr = (Inl TransportError, tr @ [Post (IssueUpdate i s)])"
  by (simp add: update_issue_state_def io_defs)

lemma main_unfold:
  "main api [] =
     (case get_canceled_state_id api [Print Rule, Print Title, Print Rule] of
        (Inl e, tr1) \<Rightarrow> (Inl e, tr1)
      | (Inr sid, tr1) \<Rightarrow>
          (case process_tickets api sid ''Archived as test pollution - cleanup operation 2025-12-04''
                  WORKER_TRACE_TICKETS \<lparr>success_count = 0, failed_count = 0, failed_tickets = []\<rparr>
                  (tr1 @ map Print [Rule, Phase1Header, Rule]) of
             (Inl e, tr2) \<Rightarrow> (Inl e, tr2)
           | (Inr b1, tr2) \<Rightarrow>
               (case process_tickets api sid
                       ''Closed as duplicate tracking ticket - cleanup operation 2025-12-04''
                       TRACK_TICKETS b1 (tr2 @ map Print [Rule, Phase2Header, Rule]) of
                  (Inl e, tr3) \<Rightarrow> (Inl e, tr3)
                | (Inr b, tr3) \<Rightarrow>
                    (Inr b, tr3 @ map Print
                       ([Rule, SummaryHeader, Rule, SummarySuccess (success_count b),
                         SummaryFailed (failed_count b)]
                        @ (if failed_tickets b \<noteq> []
                           then FailedHeader # map FailedItem (failed_tickets b) else [])
                        @ [Complete])))))"
  by (simp add: main_def io_defs split: prod.splits sum.splits)

lemmas run_defs = main_def process_ticket_def get_canceled_state_id_def get_issue_id_def
  update_issue_state_def io_defs WORKER_TRACE_TICKETS_def TRACK_TICKETS_def
  record_success_def record_failure_def reply_defs

subsection \<open>One attempt per ticket\<close>

lemma update_issue_state_shape:
  "(requests_of (snd (update_issue_state api i s c tr)) = requests_of tr @ [IssueUpdate i s]
      \<and> fst (update_issue_state api i s c tr) \<noteq> Inr True)
   \<or> (requests_of (snd (update_issue_state api i s c tr))
        = requests_of tr @ [IssueUpdate i s, CommentCreate i c]
      \<and> fst (update_issue_state api i s c tr) \<noteq> Inr False)"
  by (simp add: update_issue_state_def io_defs requests_of_append split: sum.splits prod.splits)

lemma requests_of_map_Post: "requests_of (map Post rs) = rs"
  by (induction rs) simp_all

lemma get_issue_id_fst:
  "requests_of tr = requests_of tr2 \<Longrightarrow>
   fst (get_issue_id api t tr) = fst (get_issue_id api t tr2)"
  by (simp add: get_issue_id_def io_defs split: sum.splits reply.splits)

lemma attempts_length: "attempts api s earlier tcs segs \<Longrightarrow> length tcs = length segs"
  by (induction api s earlier tcs segs rule: attempts.induct) simp_all

lemma attempts_append:
  "attempts api s earlier tcs segs \<Longrightarrow> attempts api s (earlier @ concat segs) tcs' segs' \<Longrightarrow>
   attempts api s earlier (tcs @ tcs') (segs @ segs')"
  by (induction api s earlier tcs segs rule: attempts.induct) simp_all

lemma process_ticket_attempt:
  "\<exists>seg. requests_of (snd (process_ticket api s c t b tr)) = requests_of tr @ seg
      \<and> attempt api s (requests_of tr) (t, c) seg
      \<and> (\<forall>b'. fst (process_ticket api s c t b tr) = Inr b' \<longrightarrow>
            (commented seg \<and> b' = record_success b) \<or> (\<not> commented seg \<and> b' = record_failure t b))"
proof -
  let ?tr0 = "tr @ [Print (Processing t)]"
  obtain res tr1 where g: "get_issue_id api t ?tr0 = (res, tr1)"
    by (cases "get_issue_id api t ?tr0")
  have r1: "requests_of tr1 = requests_of tr @ [IssueQuery t]"
    using get_issue_id_requests [of api t ?tr0] g by (simp add: requests_of_append)
  have "fst (get_issue_id api t (map Post (requests_of tr))) = fst (get_issue_id api t ?tr0)"
    by (rule get_issue_id_fst) (simp add: requests_of_map_Post requests_of_append)
  with g have canon: "fst (get_issue_id api t (map Post (requests_of tr))) = res"
    by simp
  show ?thesis
  proof (cases res)
    case (Inl e)
    with g r1 show ?thesis
      by (intro exI [of _ "[IssueQuery t]"]) (simp add: process_ticket_unfold attempt_def)
  next
    case (Inr i)
    show ?thesis
    proof (cases "truthy i")
      case False
      with g r1 Inr show ?thesis
        by (intro exI [of _ "[IssueQuery t]"])
           (simp add: process_ticket_unfold requests_of_append commented_def attempt_def)
    next
      case True
      obtain ures tr2 where u: "update_issue_state api i s c tr1 = (ures, tr2)"
        by (cases "update_issue_state api i s c tr1")
      have step: "process_ticket api s c t b tr =
          (case ures of Inl e \<Rightarrow> (Inl e, tr2)
           | Inr ok \<Rightarrow> (Inr (if ok then record_success b else record_failure t b), tr2 @ [Sleep]))"
        using g Inr True u by (simp add: process_ticket_unfold split: sum.splits)
      from update_issue_state_shape [of api i s c tr1] u
      consider (plain) "requests_of tr2 = requests_of tr1 @ [IssueUpdate i s]" "ures \<noteq> Inr True"
        | (comm) "requests_of tr2 = requests_of tr1 @ [IssueUpdate i s, CommentCreate i c]"
                 "ures \<noteq> Inr False"
        by auto
      then show ?thesis
      proof cases
        case plain
        have "attempt api s (requests_of tr) (t, c) [IssueQuery t, IssueUpdate i s]"
          using canon Inr True by (simp add: attempt_def)
        moreover have "requests_of (snd (process_ticket api s c t b tr))
                         = requests_of tr @ [IssueQuery t, IssueUpdate i s]"
          unfolding step using plain(1) r1 by (simp add: requests_of_append split: sum.splits)
        moreover have "\<forall>b'. fst (process_ticket api s c t b tr) = Inr b' \<longrightarrow>
            (commented [IssueQuery t, IssueUpdate i s] \<and> b' = record_success b)
          \<or> (\<not> commented [IssueQuery t, IssueUpdate i s] \<and> b' = record_failure t b)"
          unfolding step using plain(2) by (auto simp: commented_def split: sum.splits)
        ultimately show ?thesis by blast
      next
        case comm
        have "attempt api s (requests_of tr) (t, c) [IssueQuery t, IssueUpdate i s, CommentCreate i c]"
          using canon Inr True by (simp add: attempt_def)
        moreover have "requests_of (snd (process_ticket api s c t b tr))
                         = requests_of tr @ [IssueQuery t, IssueUpdate i s, CommentCreate i c]"
          unfolding step using comm(1) r1 by (simp add: requests_of_append split: sum.splits)
        moreover have "\<forall>b'. fst (process_ticket api s c t b tr) = Inr b' \<longrightarrow>
            (commented [IssueQuery t, IssueUpdate i s, CommentCreate i c] \<and> b' = record_success b)
          \<or> (\<not> commented [IssueQuery t, IssueUpdate i s, CommentCreate i c] \<and> b' = record_failure t b)"
          unfolding step using comm(2) by (auto simp: commented_def split: sum.splits)
        ultimately show ?thesis by blast
      qed
    qed
  qed
qed

lemma process_tickets_attempts:
  "\<exists>segs. requests_of (snd (process_tickets api s c ts b tr)) = requests_of tr @ concat segs
      \<and> length segs \<le> length ts
      \<and> attempts api s (requests_of tr) (take (length segs) (map (\<lambda>t. (t, c)) ts)) segs
      \<and> (\<forall>b'. fst (process_tickets api s c ts b tr) = Inr b' \<longrightarrow>
            length segs = length ts
          \<and> success_count b' = success_count b + length (filter commented segs)
          \<and> failed_count b' = failed_count b + length (filter (\<lambda>seg. \<not> commented seg) segs)
          \<and> failed_tickets b' = failed_tickets b @ failed_of (map (\<lambda>t. (t, c)) ts) segs)"
proof (induction ts arbitrary: b tr)
  case Nil
  show ?case by (intro exI [of _ "[]"]) (simp add: ret_def failed_of_def)
next
  case (Cons t ts)
  obtain res tr1 where step: "process_ticket api s c t b tr = (res, tr1)"
    by (cases "process_ticket api s c t b tr")
  from process_ticket_attempt [of api s c t b tr] step obtain seg where
    req: "requests_of tr1 = requests_of tr @ seg" and
    att: "attempt api s (requests_of tr) (t, c) seg" and
    out: "\<And>b'. res = Inr b' \<Longrightarrow>
            (commented seg \<and> b' = record_success b) \<or> (\<not> commented seg \<and> b' = record_failure t b)"
    by auto
  show ?case
  proof (cases res)
    case (Inl e)
    with step have run: "process_tickets api s c (t # ts) b tr = (Inl e, tr1)"
      by (simp add: io_bind_def)
    have "requests_of (snd (process_tickets api s c (t # ts) b tr)) = requests_of tr @ concat [seg]"
      unfolding run using req by simp
    moreover have "length [seg] \<le> length (t # ts)" by simp
    moreover have "attempts api s (requests_of tr)
                     (take (length [seg]) (map (\<lambda>t. (t, c)) (t # ts))) [seg]"
      using att by simp
    moreover have "\<forall>b'. fst (process_tickets api s c (t # ts) b tr) = Inr b' \<longrightarrow>
            length [seg] = length (t # ts)
          \<and> success_count b' = success_count b + length (filter commented [seg])
          \<and> failed_count b' = failed_count b + length (filter (\<lambda>seg. \<not> commented seg) [seg])
          \<and> failed_tickets b' = failed_tickets b @ failed_of (map (\<lambda>t. (t, c)) (t # ts)) [seg]"
      unfolding run by simp
    ultimately show ?thesis by blast
  next
    case (Inr b1)
    let ?rest = "process_tickets api s c ts b1 tr1"
    from Cons.IH [of b1 tr1] obtain segs where
      sreq: "requests_of (snd ?rest) = requests_of tr1 @ concat segs" and
      slen: "length segs \<le> length ts" and
      satt: "attempts api s (requests_of tr1) (take (length segs) (map (\<lambda>t. (t, c)) ts)) segs" and
      sout: "\<And>b'. fst ?rest = Inr b' \<Longrightarrow>
            length segs = length ts
          \<and> success_count b' = success_count b1 + length (filter commented segs)
          \<and> failed_count b' = failed_count b1 + length (filter (\<lambda>seg. \<not> commented seg) segs)
          \<and> failed_tickets b' = failed_tickets b1 @ failed_of (map (\<lambda>t. (t, c)) ts) segs"
      by blast
    have run: "process_tickets api s c (t # ts) b tr = ?rest"
      using step Inr by (simp add: io_bind_def)
    have c1: "requests_of (snd (process_tickets api s c (t # ts) b tr))
                = requests_of tr @ concat (seg # segs)"
      unfolding run using sreq req by simp
    have c2: "length (seg # segs) \<le> length (t # ts)"
      using slen by simp
    have c3: "attempts api s (requests_of tr)
                (take (length (seg # segs)) (map (\<lambda>t. (t, c)) (t # ts))) (seg # segs)"
      using att satt req by simp
    have c4: "length (seg # segs) = length (t # ts)
          \<and> success_count b' = success_count b + length (filter commented (seg # segs))
          \<and> failed_count b' = failed_count b + length (filter (\<lambda>seg. \<not> commented seg) (seg # segs))
          \<and> failed_tickets b' = failed_tickets b @ failed_of (map (\<lambda>t. (t, c)) (t # ts)) (seg # segs)"
      if fin: "fst (process_tickets api s c (t # ts) b tr) = Inr b'" for b'
    proof -
      from fin have "fst ?rest = Inr b'" unfolding run .
      note r = sout [OF this]
      from out [OF Inr] show ?thesis
      proof
        assume "commented seg \<and> b1 = record_success b"
        with r show ?thesis
          by (simp add: record_success_def failed_of_def)
      next
        assume "\<not> commented seg \<and> b1 = record_failure t b"
        with r show ?thesis
          by (simp add: record_failure_def failed_of_def)
      qed
    qed
    from c1 c2 c3 c4 show ?thesis by blast
  qed
qed

lemma failed_of_append:
  "length tcs = length segs \<Longrightarrow>
   failed_of (tcs @ tcs') (segs @ segs') = failed_of tcs segs @ failed_of tcs' segs'"
  by (simp add: failed_of_def)

lemma configured_tickets_fst:
  "map fst configured_tickets = WORKER_TRACE_TICKETS @ TRACK_TICKETS"
  by (simp add: configured_tickets_def comp_def)

subsection \<open>The Transition Executor (update_issue_state)\<close>

text \<open>
  Claim C4. If the reply to the state mutation is an object with an \<^verbatim>\<open>errors\<close> key,
  or has none and reports \<^verbatim>\<open>success = false\<close>, \<open>update_issue_state\<close> returns
  \<open>False\<close> and the state mutation is the only request it makes: the comment mutation is
  never attempted.
\<close>

theorem update_issue_state_rejected:
  assumes "api (requests_of tr) (IssueUpdate issue_id state_id) = Parsed data"
    and "(\<exists>kvs errs. data = JObj kvs \<and> map_of kvs ''errors'' = Some errs)
       \<or> (py_in ''errors'' data = Inr False
          \<and> path data [''data'', ''issueUpdate'', ''success''] = Inr (JBool False))"
  shows "fst (update_issue_state api issue_id state_id comment_text tr) = Inr False
       \<and> requests_of (snd (update_issue_state api issue_id state_id comment_text tr))
           = requests_of tr @ [IssueUpdate issue_id state_id]"
  using assms(2)
proof (elim disjE exE conjE)
  fix kvs errs
  assume "data = JObj kvs" and "map_of kvs ''errors'' = Some errs"
  with assms(1) show ?thesis
    by (simp add: update_issue_state_errors requests_of_append)
next
  assume "py_in ''errors'' data = Inr False"
    and "path data [''data'', ''issueUpdate'', ''success''] = Inr (JBool False)"
  with assms(1) show ?thesis
    by (simp add: update_issue_state_falsy [where v = "JBool False"] requests_of_append)
qed

theorem update_issue_state_rejected_witness:
  "fst (update_issue_state api_ok (JStr ''1M-615'') (JStr ''s1'') ''note'' []) = Inr False
   \<and> requests_of (snd (update_issue_state api_ok (JStr ''1M-615'') (JStr ''s1'') ''note'' []))
       = [IssueUpdate (JStr ''1M-615'') (JStr ''s1'')]
   \<and> fst (update_issue_state api_ok (JStr ''1M-613'') (JStr ''s1'') ''note'' []) = Inr False
   \<and> requests_of (snd (update_issue_state api_ok (JStr ''1M-613'') (JStr ''s1'') ''note'' []))
       = [IssueUpdate (JStr ''1M-613'') (JStr ''s1'')]"
proof -
  have a: "api_ok (requests_of []) (IssueUpdate (JStr ''1M-615'') (JStr ''s1'')) = Parsed errors_reply"
    by (simp add: api_ok_def)
  have b: "\<exists>kvs errs. errors_reply = JObj kvs \<and> map_of kvs ''errors'' = Some errs"
    by (simp add: errors_reply_def)
  have c: "api_ok (requests_of []) (IssueUpdate (JStr ''1M-613'') (JStr ''s1''))
             = Parsed (update_reply False (JStr ''1M-613''))"
    by (simp add: api_ok_def)
  have d: "py_in ''errors'' (update_reply False (JStr ''1M-613'')) = Inr False
         \<and> path (update_reply False (JStr ''1M-613'')) [''data'', ''issueUpdate'', ''success'']
             = Inr (JBool False)"
    by (simp add: reply_defs)
  show ?thesis
    using update_issue_state_rejected [where api = api_ok and tr = "[]" and comment_text = "''note''",
            OF a disjI1 [OF b]]
          update_issue_state_rejected [where api = api_ok and tr = "[]" and comment_text = "''note''",
            OF c disjI2 [OF d]]
    by simp
qed




subsection \<open>The Ticket Resolver (get_issue_id)\<close>

text \<open>
  Claim C5. If the reply to the issue query is an object with an \<^verbatim>\<open>errors\<close> key,
  \<open>get_issue_id\<close> prints the errors and returns \<^verbatim>\<open>None\<close> without raising, and the
  loop body that called it records a failure for the ticket (the failure count goes up by one,
  the ticket is appended to the failed list, the success count is unchanged) and completes
  normally.
\<close>

theorem get_issue_id_api_errors:
  assumes "api (requests_of tr) (IssueQuery ticket) = Parsed (JObj kvs)"
    and "map_of kvs ''errors'' = Some errs"
  shows "get_issue_id api ticket tr
           = (Inr JNull, tr @ [Post (IssueQuery ticket), Print (ErrorGetting ticket errs)])
       \<and> process_ticket api state_id comment_text ticket b tr
           = (Inr (b\<lparr>failed_count := failed_count b + 1,
                     failed_tickets := failed_tickets b @ [ticket]\<rparr>),
              tr @ [Print (Processing ticket), Post (IssueQuery ticket),
                    Print (ErrorGetting ticket errs), Sleep])"
proof -
  have "api (requests_of (tr @ [Print (Processing ticket)])) (IssueQuery ticket) = Parsed (JObj kvs)"
    using assms(1) by (simp add: requests_of_append)
  from get_issue_id_errors [where api = api and tr = "tr @ [Print (Processing ticket)]", OF this assms(2)]
       get_issue_id_errors [where api = api and tr = tr, OF assms]
  show ?thesis
    by (simp add: process_ticket_unfold record_failure_def)
qed

theorem get_issue_id_api_errors_witness:
  "get_issue_id api_ok ''1M-611'' []
     = (Inr JNull, [Post (IssueQuery ''1M-611''),
          Print (ErrorGetting ''1M-611'' (JArr [JObj [(''message'', JStr ''Entity not found'')]]))])
   \<and> process_ticket api_ok (JStr ''s1'') ''note'' ''1M-611''
        \<lparr>success_count = 4, failed_count = 2, failed_tickets = [''1M-601'', ''1M-605'']\<rparr> []
     = (Inr \<lparr>success_count = 4, failed_count = 3,
              failed_tickets = [''1M-601'', ''1M-605'', ''1M-611'']\<rparr>,
        [Print (Processing ''1M-611''), Post (IssueQuery ''1M-611''),
         Print (ErrorGetting ''1M-611'' (JArr [JObj [(''message'', JStr ''Entity not found'')]])),
         Sleep])"
proof -
  have a: "api_ok (requests_of []) (IssueQuery ''1M-611'')
             = Parsed (JObj [(''errors'', JArr [JObj [(''message'', JStr ''Entity not found'')]])])"
    by (simp add: api_ok_def errors_reply_def)
  have b: "map_of [(''errors'', JArr [JObj [(''message'', JStr ''Entity not found'')]])] ''errors''
             = Some (JArr [JObj [(''message'', JStr ''Entity not found'')]])"
    by simp
  show ?thesis
    using get_issue_id_api_errors [where api = api_ok and tr = "[]" and state_id = "JStr ''s1''"
            and comment_text = "''note''"
            and b = "\<lparr>success_count = 4, failed_count = 2,
                       failed_tickets = [''1M-601'', ''1M-605'']\<rparr>", OF a b]
    by simp
qed

text \<open>
  Claim C9, as written, fails in its first half: an error-free reply whose issue carries a
  null \<^verbatim>\<open>id\<close> makes \<open>get_issue_id\<close> return \<^verbatim>\<open>None\<close> as well.
\<close>

theorem get_issue_id_null_cases_counterexample:
  "api_null_id [] (IssueQuery ''1M-610'') = Parsed (issue_reply JNull ''1M-610'')
   \<and> py_in ''errors'' (issue_reply JNull ''1M-610'') = Inr False
   \<and> get_issue_id api_null_id ''1M-610'' []
       = (Inr JNull, [Post (IssueQuery ''1M-610''),
                      Print (IssueInfo ''1M-610'' (JStr ''Test'') (JStr ''Todo''))])"
  by (simp add: get_issue_id_def io_defs api_null_id_def reply_defs)

text \<open>
  Claim C9, amended. \<open>get_issue_id\<close> returns \<^verbatim>\<open>None\<close> only when the reply is an
  object with an \<^verbatim>\<open>errors\<close> key or the \<^verbatim>\<open>id\<close> of the issue in the reply is
  itself null; for a reply without \<^verbatim>\<open>errors\<close> whose \<^verbatim>\<open>issue\<close> is null it raises
  \<^verbatim>\<open>TypeError\<close> at the first subscript of the issue, right after the request.
\<close>

theorem get_issue_id_null_cases:
  "(api (requests_of tr) (IssueQuery ticket) = Parsed data
      \<and> fst (get_issue_id api ticket tr) = Inr JNull \<longrightarrow>
      (\<exists>kvs. data = JObj kvs \<and> ''errors'' \<in> fst ` set kvs)
      \<or> (py_in ''errors'' data = Inr False \<and> path data [''data'', ''issue'', ''id''] = Inr JNull))
   \<and> (api (requests_of tr) (IssueQuery ticket) = Parsed data
      \<and> py_in ''errors'' data = Inr False
      \<and> path data [''data'', ''issue''] = Inr JNull \<longrightarrow>
      get_issue_id api ticket tr = (Inl TypeError, tr @ [Post (IssueQuery ticket)]))"
proof (intro conjI impI)
  assume "api (requests_of tr) (IssueQuery ticket) = Parsed data
      \<and> fst (get_issue_id api ticket tr) = Inr JNull"
  then have a: "api (requests_of tr) (IssueQuery ticket) = Parsed data"
      "fst (get_issue_id api ticket tr) = Inr JNull"
    by simp_all
  show "(\<exists>kvs. data = JObj kvs \<and> ''errors'' \<in> fst ` set kvs)
      \<or> (py_in ''errors'' data = Inr False \<and> path data [''data'', ''issue'', ''id''] = Inr JNull)"
  proof (cases "py_in ''errors'' data")
    case (Inl e)
    with a show ?thesis by (simp add: get_issue_id_def io_defs)
  next
    case (Inr has_errors)
    show ?thesis
    proof (cases has_errors)
      case True
      with Inr a have "\<exists>errs. subscript data ''errors'' = Inr errs"
        by (cases "subscript data ''errors''") (simp_all add: get_issue_id_def io_defs)
      then obtain kvs where "data = JObj kvs"
        by (cases data) auto
      with Inr True show ?thesis by simp
    next
      case False
      with Inr a have "path data [''data'', ''issue'', ''id''] = Inr JNull"
        by (auto simp: get_issue_id_def io_defs split: sum.splits)
      with Inr False show ?thesis by simp
    qed
  qed
next
  assume "api (requests_of tr) (IssueQuery ticket) = Parsed data
      \<and> py_in ''errors'' data = Inr False
      \<and> path data [''data'', ''issue''] = Inr JNull"
  then show "get_issue_id api ticket tr = (Inl TypeError, tr @ [Post (IssueQuery ticket)])"
    by (auto simp: get_issue_id_def io_defs split: sum.splits)
qed

theorem get_issue_id_null_cases_witness:
  "api_ok (requests_of []) (IssueQuery ''1M-611'') = Parsed errors_reply
   \<and> fst (get_issue_id api_ok ''1M-611'' []) = Inr JNull
   \<and> ((\<exists>kvs. errors_reply = JObj kvs \<and> ''errors'' \<in> fst ` set kvs)
      \<or> (py_in ''errors'' errors_reply = Inr False
         \<and> path errors_reply [''data'', ''issue'', ''id''] = Inr JNull))
   \<and> get_issue_id api_null_issue ''1M-610'' [] = (Inl TypeError, [Post (IssueQuery ''1M-610'')])"
proof -
  let ?data = "obj_data (JObj [(''issue'', JNull)])"
  have h1: "api_ok (requests_of []) (IssueQuery ''1M-611'') = Parsed errors_reply
          \<and> fst (get_issue_id api_ok ''1M-611'' []) = Inr JNull"
    by (simp add: get_issue_id_def io_defs api_ok_def reply_defs)
  have h2: "api_null_issue (requests_of []) (IssueQuery ''1M-610'') = Parsed ?data
          \<and> py_in ''errors'' ?data = Inr False
          \<and> path ?data [''data'', ''issue''] = Inr JNull"
    by (simp add: api_null_issue_def reply_defs)
  note n1 = get_issue_id_null_cases [where api = api_ok and tr = "[]" and ticket = "''1M-611''"
      and data = errors_reply, THEN conjunct1, THEN mp, OF h1]
  note n2 = get_issue_id_null_cases [where api = api_null_issue and tr = "[]" and ticket = "''1M-610''"
      and data = ?data, THEN conjunct2, THEN mp, OF h2]
  from h1 n1 n2 show ?thesis by simp
qed

subsection \<open>The loop over the tickets\<close>

text \<open>
  Claim C6. When \<open>get_issue_id\<close> returns \<^verbatim>\<open>None\<close> for a ticket, the loop body
  increments the failure count and appends the ticket to the failed list, the issue query is
  the only request made for that ticket (\<open>update_issue_state\<close> is not called), and the
  ticket is in the failed list when its phase ends and when any later phase ends.
\<close>

theorem unresolved_ticket_is_failed:
  assumes "fst (get_issue_id api ticket (tr @ [Print (Processing ticket)])) = Inr JNull"
  shows "fst (process_ticket api state_id comment_text ticket b tr)
           = Inr (b\<lparr>failed_count := failed_count b + 1,
                    failed_tickets := failed_tickets b @ [ticket]\<rparr>)
       \<and> requests_of (snd (process_ticket api state_id comment_text ticket b tr))
           = requests_of tr @ [IssueQuery ticket]
       \<and> (process_tickets api state_id comment_text (ticket # tickets) b tr = (Inr b', tr') \<longrightarrow>
            ticket \<in> set (failed_tickets b')
          \<and> (process_tickets api state_id later_comment later_tickets b' tr' = (Inr b_later, tr_later) \<longrightarrow>
               ticket \<in> set (failed_tickets b_later)))"
proof -
  let ?tr0 = "tr @ [Print (Processing ticket)]"
  obtain tr1 where g: "get_issue_id api ticket ?tr0 = (Inr JNull, tr1)"
    using assms by (cases "get_issue_id api ticket ?tr0") simp
  then have step: "process_ticket api state_id comment_text ticket b tr
                     = (Inr (record_failure ticket b), tr1 @ [Sleep])"
    by (simp add: process_ticket_unfold)
  have req: "requests_of tr1 = requests_of tr @ [IssueQuery ticket]"
    using get_issue_id_requests [of api ticket ?tr0] g by (simp add: requests_of_append)
  have later: "ticket \<in> set (failed_tickets b')
          \<and> (process_tickets api state_id later_comment later_tickets b' tr' = (Inr b_later, tr_later) \<longrightarrow>
               ticket \<in> set (failed_tickets b_later))"
    if run: "process_tickets api state_id comment_text (ticket # tickets) b tr = (Inr b', tr')"
  proof -
    from run step have "process_tickets api state_id comment_text tickets (record_failure ticket b)
                          (tr1 @ [Sleep]) = (Inr b', tr')"
      by (simp add: io_bind_def)
    from process_tickets_failed_grow [OF this] have here: "ticket \<in> set (failed_tickets b')"
      by (auto simp: record_failure_def)
    with process_tickets_failed_grow [of api state_id later_comment later_tickets b' tr' b_later tr_later]
    show ?thesis by auto
  qed
  from step req later show ?thesis
    by (simp add: record_failure_def requests_of_append)
qed

theorem unresolved_ticket_is_failed_witness:
  "fst (get_issue_id api_ok ''1M-611'' ([] @ [Print (Processing ''1M-611'')])) = Inr JNull
   \<and> fst (process_ticket api_ok (JStr ''s1'') ''note'' ''1M-611''
            \<lparr>success_count = 1, failed_count = 0, failed_tickets = []\<rparr> [])
       = Inr \<lparr>success_count = 1, failed_count = 1, failed_tickets = [''1M-611'']\<rparr>
   \<and> requests_of (snd (process_ticket api_ok (JStr ''s1'') ''note'' ''1M-611''
            \<lparr>success_count = 1, failed_count = 0, failed_tickets = []\<rparr> []))
       = [IssueQuery ''1M-611'']
   \<and> ''1M-611'' \<in> set (failed_tickets \<lparr>success_count = 1, failed_count = 1, failed_tickets = [''1M-611'']\<rparr>)
   \<and> ''1M-611'' \<in> set (failed_tickets \<lparr>success_count = 1, failed_count = 2,
                                         failed_tickets = [''1M-611'', ''1M-613'']\<rparr>)"
proof -
  let ?b = "\<lparr>success_count = 1, failed_count = 0, failed_tickets = []\<rparr>"
  let ?b' = "\<lparr>success_count = 1, failed_count = 1, failed_tickets = [''1M-611'']\<rparr>"
  let ?b2 = "\<lparr>success_count = 1, failed_count = 2, failed_tickets = [''1M-611'', ''1M-613'']\<rparr>"
  let ?tr' = "[Print (Processing ''1M-611''), Post (IssueQuery ''1M-611''),
               Print (ErrorGetting ''1M-611'' (JArr [JObj [(''message'', JStr ''Entity not found'')]])),
               Sleep]"
  let ?tr2 = "?tr' @ [Print (Processing ''1M-613''), Post (IssueQuery ''1M-613''),
               Print (IssueInfo ''1M-613'' (JStr ''Test'') (JStr ''Todo'')),
               Post (IssueUpdate (JStr ''1M-613'') (JStr ''s1'')), Sleep]"
  have h: "fst (get_issue_id api_ok ''1M-611'' ([] @ [Print (Processing ''1M-611'')])) = Inr JNull"
    by (simp add: get_issue_id_def io_defs api_ok_def reply_defs)
  have p1: "process_tickets api_ok (JStr ''s1'') ''note'' (''1M-611'' # []) ?b [] = (Inr ?b', ?tr')"
    by (simp add: process_ticket_def get_issue_id_def io_defs api_ok_def reply_defs
          record_failure_def)
  have p2: "process_tickets api_ok (JStr ''s1'') ''dup'' [''1M-613''] ?b' ?tr' = (Inr ?b2, ?tr2)"
    by (simp add: process_ticket_def get_issue_id_def update_issue_state_def io_defs api_ok_def
          reply_defs record_failure_def)
  show ?thesis
    using h p1 p2
      unresolved_ticket_is_failed [where api = api_ok and ticket = "''1M-611''" and tr = "[]"
        and state_id = "JStr ''s1''" and comment_text = "''note''" and b = ?b
        and tickets = "[]" and b' = ?b' and tr' = ?tr'
        and later_comment = "''dup''" and later_tickets = "[''1M-613'']" and b_later = ?b2 and tr_later = ?tr2, OF h]
    by simp
qed


subsection \<open>The State Resolver (get_canceled_state_id)\<close>

text \<open>
  Claim C8. \<open>get_canceled_state_id\<close> makes one request, the name-filtered state query, and
  filters its nodes by team: a value it returns is the \<^verbatim>\<open>id\<close> of a node of the reply
  whose team key is \<^verbatim>\<open>1M\<close>; when every node belongs to another team it raises the
  exception \<^verbatim>\<open>Could not find Canceled state for team 1M\<close>; and when the nodes carry team
  keys and ids and one of them belongs to \<^verbatim>\<open>1M\<close>, it returns the id of such a node.
\<close>

theorem get_canceled_state_id_team_filter:
  "(get_canceled_state_id api tr = (Inr v, tr') \<longrightarrow>
      (\<exists>data nodes node.
          api (requests_of tr) StatesQuery = Parsed data
        \<and> path data [''data'', ''workflowStates'', ''nodes''] = Inr (JArr nodes)
        \<and> node \<in> set nodes
        \<and> path node [''team'', ''key''] = Inr (JStr ''1M'')
        \<and> subscript node ''id'' = Inr v))
   \<and> (api (requests_of tr) StatesQuery = Parsed reply_data
        \<and> path reply_data [''data'', ''workflowStates'', ''nodes''] = Inr (JArr reply_nodes)
        \<and> (\<forall>n\<in>set reply_nodes. \<exists>k. path n [''team'', ''key''] = Inr k \<and> k \<noteq> JStr ''1M'') \<longrightarrow>
      get_canceled_state_id api tr
        = (Inl (PyException ''Could not find Canceled state for team 1M''), tr @ [Post StatesQuery]))
   \<and> (api (requests_of tr) StatesQuery = Parsed reply_data
        \<and> path reply_data [''data'', ''workflowStates'', ''nodes''] = Inr (JArr reply_nodes)
        \<and> (\<forall>n\<in>set reply_nodes. \<exists>k i. path n [''team'', ''key''] = Inr k \<and> subscript n ''id'' = Inr i)
        \<and> (\<exists>n\<in>set reply_nodes. path n [''team'', ''key''] = Inr (JStr ''1M'')) \<longrightarrow>
      (\<exists>n\<in>set reply_nodes. path n [''team'', ''key''] = Inr (JStr ''1M'')
         \<and> fst (get_canceled_state_id api tr) = subscript n ''id''))
   \<and> requests_of (snd (get_canceled_state_id api tr)) = requests_of tr @ [StatesQuery]"
proof (intro conjI impI)
  assume r: "get_canceled_state_id api tr = (Inr v, tr')"
  then obtain data where d: "api (requests_of tr) StatesQuery = Parsed data"
    by (cases "api (requests_of tr) StatesQuery") (simp_all add: get_canceled_state_id_unfold)
  with r obtain nodes where n: "path data [''data'', ''workflowStates'', ''nodes''] = Inr nodes"
    by (cases "path data [''data'', ''workflowStates'', ''nodes'']")
       (simp_all add: get_canceled_state_id_unfold)
  with r d obtain states where s: "py_iter nodes = Inr states"
    by (cases "py_iter nodes") (simp_all add: get_canceled_state_id_unfold)
  with r d n have f: "find_state states (tr @ [Post StatesQuery]) = (Inr v, tr')"
    by (simp add: get_canceled_state_id_unfold)
  from find_state_non_array [OF s f] have "nodes = JArr states" .
  with d n find_state_Inr [OF f]
  show "\<exists>data nodes node.
          api (requests_of tr) StatesQuery = Parsed data
        \<and> path data [''data'', ''workflowStates'', ''nodes''] = Inr (JArr nodes)
        \<and> node \<in> set nodes
        \<and> path node [''team'', ''key''] = Inr (JStr ''1M'')
        \<and> subscript node ''id'' = Inr v"
    by blast
next
  assume "api (requests_of tr) StatesQuery = Parsed reply_data
        \<and> path reply_data [''data'', ''workflowStates'', ''nodes''] = Inr (JArr reply_nodes)
        \<and> (\<forall>n\<in>set reply_nodes. \<exists>k. path n [''team'', ''key''] = Inr k \<and> k \<noteq> JStr ''1M'')"
  then show "get_canceled_state_id api tr
        = (Inl (PyException ''Could not find Canceled state for team 1M''), tr @ [Post StatesQuery])"
    by (simp add: get_canceled_state_id_unfold find_state_none)
next
  assume a: "api (requests_of tr) StatesQuery = Parsed reply_data
        \<and> path reply_data [''data'', ''workflowStates'', ''nodes''] = Inr (JArr reply_nodes)
        \<and> (\<forall>n\<in>set reply_nodes. \<exists>k i. path n [''team'', ''key''] = Inr k \<and> subscript n ''id'' = Inr i)
        \<and> (\<exists>n\<in>set reply_nodes. path n [''team'', ''key''] = Inr (JStr ''1M''))"
  let ?P = "\<lambda>n. path n [''team'', ''key''] = Inr (JStr ''1M'')"
  from a obtain n where n: "find ?P reply_nodes = Some n"
    by (cases "find ?P reply_nodes") (auto simp: find_None_iff)
  then have "n \<in> set reply_nodes" and "?P n"
    by (auto simp: find_Some_iff)
  moreover from a n have "fst (get_canceled_state_id api tr) = subscript n ''id''"
    by (simp add: get_canceled_state_id_unfold find_state_find)
  ultimately show "\<exists>n\<in>set reply_nodes. path n [''team'', ''key''] = Inr (JStr ''1M'')
         \<and> fst (get_canceled_state_id api tr) = subscript n ''id''"
    by blast
next
  show "requests_of (snd (get_canceled_state_id api tr)) = requests_of tr @ [StatesQuery]"
    by (rule get_canceled_state_id_requests)
qed


theorem get_canceled_state_id_team_filter_witness:
  "get_canceled_state_id api_ok []
     = (Inr (JStr ''s1''), [Post StatesQuery, Print (FoundState (JStr ''s1''))])
   \<and> (\<exists>data nodes node.
          api_ok (requests_of []) StatesQuery = Parsed data
        \<and> path data [''data'', ''workflowStates'', ''nodes''] = Inr (JArr nodes)
        \<and> node \<in> set nodes
        \<and> path node [''team'', ''key''] = Inr (JStr ''1M'')
        \<and> subscript node ''id'' = Inr (JStr ''s1''))
   \<and> (\<exists>n\<in>set [state_node ''s0'' ''ENG'', state_node ''s1'' ''1M'', state_node ''s2'' ''1M''].
          path n [''team'', ''key''] = Inr (JStr ''1M'')
        \<and> fst (get_canceled_state_id api_ok []) = subscript n ''id'')
   \<and> get_canceled_state_id api_no_state []
     = (Inl (PyException ''Could not find Canceled state for team 1M''), [Post StatesQuery])"
proof -
  let ?ok = "[state_node ''s0'' ''ENG'', state_node ''s1'' ''1M'', state_node ''s2'' ''1M'']"
  let ?no = "[state_node ''s0'' ''ENG'', state_node ''s3'' ''OPS'']"
  have run: "get_canceled_state_id api_ok []
               = (Inr (JStr ''s1''), [Post StatesQuery, Print (FoundState (JStr ''s1''))])"
    by (simp add: get_canceled_state_id_def io_defs api_ok_def reply_defs)
  have ok: "api_ok (requests_of []) StatesQuery = Parsed (states_reply ?ok)
          \<and> path (states_reply ?ok) [''data'', ''workflowStates'', ''nodes''] = Inr (JArr ?ok)
          \<and> (\<forall>n\<in>set ?ok. \<exists>k i. path n [''team'', ''key''] = Inr k \<and> subscript n ''id'' = Inr i)
          \<and> (\<exists>n\<in>set ?ok. path n [''team'', ''key''] = Inr (JStr ''1M''))"
    by (simp add: api_ok_def reply_defs)
  have no: "api_no_state (requests_of []) StatesQuery = Parsed (states_reply ?no)
          \<and> path (states_reply ?no) [''data'', ''workflowStates'', ''nodes''] = Inr (JArr ?no)
          \<and> (\<forall>n\<in>set ?no. \<exists>k. path n [''team'', ''key''] = Inr k \<and> k \<noteq> JStr ''1M'')"
    by (simp add: api_no_state_def reply_defs)
  note at_ok = get_canceled_state_id_team_filter [where api = api_ok and tr = "[]"
      and v = "JStr ''s1''" and tr' = "[Post StatesQuery, Print (FoundState (JStr ''s1''))]"
      and reply_data = "states_reply ?ok" and reply_nodes = ?ok]
  note at_no = get_canceled_state_id_team_filter [where api = api_no_state and tr = "[]"
      and reply_data = "states_reply ?no" and reply_nodes = ?no]
  from at_ok run have one: "\<exists>data nodes node.
          api_ok (requests_of []) StatesQuery = Parsed data
        \<and> path data [''data'', ''workflowStates'', ''nodes''] = Inr (JArr nodes)
        \<and> node \<in> set nodes
        \<and> path node [''team'', ''key''] = Inr (JStr ''1M'')
        \<and> subscript node ''id'' = Inr (JStr ''s1'')"
    by blast
  from at_ok ok have three: "\<exists>n\<in>set ?ok. path n [''team'', ''key''] = Inr (JStr ''1M'')
        \<and> fst (get_canceled_state_id api_ok []) = subscript n ''id''"
    by blast
  from at_no no have two: "get_canceled_state_id api_no_state []
     = (Inl (PyException ''Could not find Canceled state for team 1M''), [] @ [Post StatesQuery])"
    by blast
  from run one two three show ?thesis by simp
qed

text \<open>
  Claim C10. With several nodes of team \<^verbatim>\<open>1M\<close> in the reply, the id of the first one
  in node order is returned, whatever follows it.
\<close>

theorem get_canceled_state_id_first_match:
  assumes "api (requests_of tr) StatesQuery = Parsed data"
    and "path data [''data'', ''workflowStates'', ''nodes''] = Inr (JArr (before @ node # after))"
    and "\<forall>n\<in>set before. \<exists>k. path n [''team'', ''key''] = Inr k \<and> k \<noteq> JStr ''1M''"
    and "path node [''team'', ''key''] = Inr (JStr ''1M'')"
    and "subscript node ''id'' = Inr v"
  shows "get_canceled_state_id api tr = (Inr v, tr @ [Post StatesQuery, Print (FoundState v)])"
proof -
  have "get_canceled_state_id api tr = find_state (before @ node # after) (tr @ [Post StatesQuery])"
    using assms(1,2) by (simp add: get_canceled_state_id_unfold)
  also have "\<dots> = find_state (node # after) (tr @ [Post StatesQuery])"
    using assms(3) by (rule find_state_skip)
  also have "\<dots> = (Inr v, (tr @ [Post StatesQuery]) @ [Print (FoundState v)])"
    using assms(4,5) by (rule find_state_hit)
  finally show ?thesis by simp
qed

theorem get_canceled_state_id_first_match_witness:
  "get_canceled_state_id api_ok []
     = (Inr (JStr ''s1''), [Post StatesQuery, Print (FoundState (JStr ''s1''))])"
proof -
  let ?data = "states_reply [state_node ''s0'' ''ENG'', state_node ''s1'' ''1M'', state_node ''s2'' ''1M'']"
  have a: "api_ok (requests_of []) StatesQuery = Parsed ?data"
    by (simp add: api_ok_def)
  have b: "path ?data [''data'', ''workflowStates'', ''nodes'']
             = Inr (JArr ([state_node ''s0'' ''ENG''] @ state_node ''s1'' ''1M'' # [state_node ''s2'' ''1M'']))"
    by (simp add: reply_defs)
  have c: "\<forall>n\<in>set [state_node ''s0'' ''ENG'']. \<exists>k. path n [''team'', ''key''] = Inr k \<and> k \<noteq> JStr ''1M''"
    by (simp add: reply_defs)
  have d: "path (state_node ''s1'' ''1M'') [''team'', ''key''] = Inr (JStr ''1M'')"
    by (simp add: reply_defs)
  have e: "subscript (state_node ''s1'' ''1M'') ''id'' = Inr (JStr ''s1'')"
    by (simp add: reply_defs)
  show ?thesis
    using get_canceled_state_id_first_match [where api = api_ok and tr = "[]", OF a b c d e]
    by simp
qed

subsection \<open>The Batch Orchestrator (main)\<close>

text \<open>
  Claim C7. If \<open>get_canceled_state_id\<close> fails, \<open>main\<close> ends with that exception right
  after the state query: the trace holds the banner and that one request, no ticket is
  resolved or transitioned, and no counter is ever incremented.
\<close>

theorem main_aborts_without_state:
  assumes "fst (get_canceled_state_id api []) = Inl e"
  shows "main api [] = (Inl e, [Print Rule, Print Title, Print Rule, Post StatesQuery])"
proof -
  let ?tr = "[Print Rule, Print Title, Print Rule]"
  have "fst (get_canceled_state_id api ?tr) = Inl e"
    using assms get_canceled_state_id_fst [of ?tr "[]" api] by simp
  with get_canceled_state_id_fail_trace [of api ?tr e]
  have "get_canceled_state_id api ?tr = (Inl e, ?tr @ [Post StatesQuery])"
    by (simp add: prod_eq_iff)
  then show ?thesis
    by (simp add: main_def io_bind_def print_lines_def)
qed

theorem main_aborts_without_state_witness:
  "fst (get_canceled_state_id api_no_state [])
     = Inl (PyException ''Could not find Canceled state for team 1M'')
   \<and> main api_no_state []
     = (Inl (PyException ''Could not find Canceled state for team 1M''),
        [Print Rule, Print Title, Print Rule, Post StatesQuery])"
proof -
  have h: "fst (get_canceled_state_id api_no_state [])
             = Inl (PyException ''Could not find Canceled state for team 1M'')"
    by (simp add: get_canceled_state_id_def io_defs api_no_state_def reply_defs)
  from h main_aborts_without_state [OF h] show ?thesis by simp
qed

text \<open>
  Claim C2, as written, fails: a transport failure during the state mutation of the first
  ticket ends the whole run with the exception; the remaining nineteen tickets are never
  looked at.
\<close>

theorem api_errors_become_failures_counterexample:
  "fst (main (api_drop (IssueUpdate (JStr ''1M-610'') (JStr ''s1''))) []) = Inl TransportError
   \<and> requests_of (snd (main (api_drop (IssueUpdate (JStr ''1M-610'') (JStr ''s1''))) []))
       = [StatesQuery, IssueQuery ''1M-610'', IssueUpdate (JStr ''1M-610'') (JStr ''s1'')]"
  by (simp add: run_defs api_ok_def api_drop_def)

text \<open>
  Claim C2, amended. In the loop over the tickets, an API-reported error (a reply object with
  an \<^verbatim>\<open>errors\<close> key) during the resolution or the state mutation of a ticket records a
  failure for that ticket and the loop goes on with the next ticket. A transport failure in
  either request is not caught: the loop ends there with the exception.
\<close>

theorem api_errors_become_failures:
  "(api (requests_of tr) (IssueQuery ticket) = Parsed (JObj kvs)
      \<and> map_of kvs ''errors'' = Some errs \<longrightarrow>
    process_tickets api state_id comment_text (ticket # tickets) b tr
      = process_tickets api state_id comment_text tickets (record_failure ticket b)
          (tr @ [Print (Processing ticket), Post (IssueQuery ticket),
                 Print (ErrorGetting ticket errs), Sleep]))
   \<and> (get_issue_id api ticket (tr @ [Print (Processing ticket)]) = (Inr issue_id, tr')
      \<and> truthy issue_id
      \<and> api (requests_of tr') (IssueUpdate issue_id state_id) = Parsed (JObj kvs)
      \<and> map_of kvs ''errors'' = Some errs \<longrightarrow>
    process_tickets api state_id comment_text (ticket # tickets) b tr
      = process_tickets api state_id comment_text tickets (record_failure ticket b)
          (tr' @ [Post (IssueUpdate issue_id state_id), Print (ErrorUpdating errs), Sleep]))
   \<and> (api (requests_of tr) (IssueQuery ticket) = Raised \<longrightarrow>
    process_tickets api state_id comment_text (ticket # tickets) b tr
      = (Inl TransportError, tr @ [Print (Processing ticket), Post (IssueQuery ticket)]))
   \<and> (get_issue_id api ticket (tr @ [Print (Processing ticket)]) = (Inr issue_id, tr')
      \<and> truthy issue_id
      \<and> api (requests_of tr') (IssueUpdate issue_id state_id) = Raised \<longrightarrow>
    process_tickets api state_id comment_text (ticket # tickets) b tr
      = (Inl TransportError, tr' @ [Post (IssueUpdate issue_id state_id)]))"
proof (intro conjI impI)
  assume a: "api (requests_of tr) (IssueQuery ticket) = Parsed (JObj kvs)
      \<and> map_of kvs ''errors'' = Some errs"
  then have "api (requests_of (tr @ [Print (Processing ticket)])) (IssueQuery ticket) = Parsed (JObj kvs)"
    by (simp add: requests_of_append)
  with a have "get_issue_id api ticket (tr @ [Print (Processing ticket)])
      = (Inr JNull, (tr @ [Print (Processing ticket)])
           @ [Post (IssueQuery ticket), Print (ErrorGetting ticket errs)])"
    by (simp only: get_issue_id_errors)
  then show "process_tickets api state_id comment_text (ticket # tickets) b tr
      = process_tickets api state_id comment_text tickets (record_failure ticket b)
          (tr @ [Print (Processing ticket), Post (IssueQuery ticket),
                 Print (ErrorGetting ticket errs), Sleep])"
    by (simp add: io_bind_def process_ticket_unfold)
next
  assume a: "get_issue_id api ticket (tr @ [Print (Processing ticket)]) = (Inr issue_id, tr')
      \<and> truthy issue_id
      \<and> api (requests_of tr') (IssueUpdate issue_id state_id) = Parsed (JObj kvs)
      \<and> map_of kvs ''errors'' = Some errs"
  then have "update_issue_state api issue_id state_id comment_text tr'
      = (Inr False, tr' @ [Post (IssueUpdate issue_id state_id), Print (ErrorUpdating errs)])"
    by (simp only: update_issue_state_errors)
  with a show "process_tickets api state_id comment_text (ticket # tickets) b tr
      = process_tickets api state_id comment_text tickets (record_failure ticket b)
          (tr' @ [Post (IssueUpdate issue_id state_id), Print (ErrorUpdating errs), Sleep])"
    by (simp add: io_bind_def process_ticket_unfold)
next
  assume "api (requests_of tr) (IssueQuery ticket) = Raised"
  then have "api (requests_of (tr @ [Print (Processing ticket)])) (IssueQuery ticket) = Raised"
    by (simp add: requests_of_append)
  then have "get_issue_id api ticket (tr @ [Print (Processing ticket)])
      = (Inl TransportError, (tr @ [Print (Processing ticket)]) @ [Post (IssueQuery ticket)])"
    by (rule get_issue_id_raised)
  then show "process_tickets api state_id comment_text (ticket # tickets) b tr
      = (Inl TransportError, tr @ [Print (Processing ticket), Post (IssueQuery ticket)])"
    by (simp add: io_bind_def process_ticket_unfold)
next
  assume a: "get_issue_id api ticket (tr @ [Print (Processing ticket)]) = (Inr issue_id, tr')
      \<and> truthy issue_id
      \<and> api (requests_of tr') (IssueUpdate issue_id state_id) = Raised"
  then have "update_issue_state api issue_id state_id comment_text tr'
      = (Inl TransportError, tr' @ [Post (IssueUpdate issue_id state_id)])"
    by (simp only: update_issue_state_raised)
  with a show "process_tickets api state_id comment_text (ticket # tickets) b tr
      = (Inl TransportError, tr' @ [Post (IssueUpdate issue_id state_id)])"
    by (simp add: io_bind_def process_ticket_unfold)
qed

theorem api_errors_become_failures_witness:
  "fst (process_tickets api_ok (JStr ''s1'') ''note'' [''1M-611'', ''1M-612'']
          \<lparr>success_count = 0, failed_count = 0, failed_tickets = []\<rparr> [])
     = Inr \<lparr>success_count = 1, failed_count = 1, failed_tickets = [''1M-611'']\<rparr>
   \<and> fst (process_tickets api_ok (JStr ''s1'') ''note'' [''1M-615'', ''1M-616'']
          \<lparr>success_count = 0, failed_count = 0, failed_tickets = []\<rparr> [])
     = Inr \<lparr>success_count = 1, failed_count = 1, failed_tickets = [''1M-615'']\<rparr>
   \<and> process_tickets (api_drop (IssueQuery ''1M-612'')) (JStr ''s1'') ''note'' [''1M-612'', ''1M-613'']
          \<lparr>success_count = 0, failed_count = 0, failed_tickets = []\<rparr> []
     = (Inl TransportError, [Print (Processing ''1M-612''), Post (IssueQuery ''1M-612'')])
   \<and> process_tickets (api_drop (IssueUpdate (JStr ''1M-614'') (JStr ''s1''))) (JStr ''s1'') ''note''
          [''1M-614'', ''1M-615''] \<lparr>success_count = 0, failed_count = 0, failed_tickets = []\<rparr> []
     = (Inl TransportError,
        [Print (Processing ''1M-614''), Post (IssueQuery ''1M-614''),
         Print (IssueInfo ''1M-614'' (JStr ''Test'') (JStr ''Todo'')),
         Post (IssueUpdate (JStr ''1M-614'') (JStr ''s1''))])"
proof -
  let ?b = "\<lparr>success_count = 0, failed_count = 0, failed_tickets = []\<rparr>"
  let ?errs = "JArr [JObj [(''message'', JStr ''Entity not found'')]]"
  let ?kvs = "[(''errors'', ?errs)]"
  let ?drop_q = "api_drop (IssueQuery ''1M-612'')"
  let ?drop_u = "api_drop (IssueUpdate (JStr ''1M-614'') (JStr ''s1''))"
  let ?tr615 = "[Print (Processing ''1M-615''), Post (IssueQuery ''1M-615''),
                 Print (IssueInfo ''1M-615'' (JStr ''Test'') (JStr ''Todo''))]"
  let ?tr614 = "[Print (Processing ''1M-614''), Post (IssueQuery ''1M-614''),
                 Print (IssueInfo ''1M-614'' (JStr ''Test'') (JStr ''Todo''))]"
  have h1: "api_ok (requests_of []) (IssueQuery ''1M-611'') = Parsed (JObj ?kvs)
          \<and> map_of ?kvs ''errors'' = Some ?errs"
    by (simp add: api_ok_def errors_reply_def)
  have h2: "get_issue_id api_ok ''1M-615'' ([] @ [Print (Processing ''1M-615'')])
              = (Inr (JStr ''1M-615''), ?tr615)
          \<and> truthy (JStr ''1M-615'')
          \<and> api_ok (requests_of ?tr615) (IssueUpdate (JStr ''1M-615'') (JStr ''s1'')) = Parsed (JObj ?kvs)
          \<and> map_of ?kvs ''errors'' = Some ?errs"
    by (simp add: get_issue_id_def io_defs api_ok_def reply_defs)
  have h3: "?drop_q (requests_of []) (IssueQuery ''1M-612'') = Raised"
    by (simp add: api_drop_def)
  have h4: "get_issue_id ?drop_u ''1M-614'' ([] @ [Print (Processing ''1M-614'')])
              = (Inr (JStr ''1M-614''), ?tr614)
          \<and> truthy (JStr ''1M-614'')
          \<and> ?drop_u (requests_of ?tr614) (IssueUpdate (JStr ''1M-614'') (JStr ''s1'')) = Raised"
    by (simp add: get_issue_id_def io_defs api_drop_def api_ok_def reply_defs)
  note t1 = api_errors_become_failures [where api = api_ok and tr = "[]" and ticket = "''1M-611''"
      and kvs = ?kvs and errs = ?errs and state_id = "JStr ''s1''" and comment_text = "''note''"
      and tickets = "[''1M-612'']" and b = ?b, THEN conjunct1, THEN mp, OF h1]
  note t2 = api_errors_become_failures [where api = api_ok and tr = "[]" and ticket = "''1M-615''"
      and kvs = ?kvs and errs = ?errs and state_id = "JStr ''s1''" and comment_text = "''note''"
      and tickets = "[''1M-616'']" and b = ?b and issue_id = "JStr ''1M-615''" and tr' = ?tr615,
      THEN conjunct2, THEN conjunct1, THEN mp, OF h2]
  note t3 = api_errors_become_failures [where api = ?drop_q and tr = "[]" and ticket = "''1M-612''"
      and state_id = "JStr ''s1''" and comment_text = "''note''"
      and tickets = "[''1M-613'']" and b = ?b,
      THEN conjunct2, THEN conjunct2, THEN conjunct1, THEN mp, OF h3]
  note t4 = api_errors_become_failures [where api = ?drop_u and tr = "[]" and ticket = "''1M-614''"
      and state_id = "JStr ''s1''" and comment_text = "''note''"
      and tickets = "[''1M-615'']" and b = ?b and issue_id = "JStr ''1M-614''" and tr' = ?tr614,
      THEN conjunct2, THEN conjunct2, THEN conjunct2, THEN mp, OF h4]
  have e1: "fst (process_tickets api_ok (JStr ''s1'') ''note'' [''1M-611'', ''1M-612''] ?b [])
              = Inr \<lparr>success_count = 1, failed_count = 1, failed_tickets = [''1M-611'']\<rparr>"
    unfolding t1
    by (simp add: process_ticket_def get_issue_id_def update_issue_state_def io_defs api_ok_def
          reply_defs record_success_def record_failure_def)
  have e2: "fst (process_tickets api_ok (JStr ''s1'') ''note'' [''1M-615'', ''1M-616''] ?b [])
              = Inr \<lparr>success_count = 1, failed_count = 1, failed_tickets = [''1M-615'']\<rparr>"
    unfolding t2
    by (simp add: process_ticket_def get_issue_id_def update_issue_state_def io_defs api_ok_def
          reply_defs record_success_def record_failure_def)
  from e1 e2 t3 t4 show ?thesis by simp
qed

text \<open>
  Claim C1, as written, fails: the run below ends with an exception at the third ticket, which
  is counted neither as success nor as failure; there is no final count and seventeen tickets
  are never processed.
\<close>

theorem main_counts_every_ticket_counterexample:
  "fst (main (api_drop (IssueQuery ''1M-612'')) []) = Inl TransportError
   \<and> resolved (requests_of (snd (main (api_drop (IssueQuery ''1M-612'')) [])))
       = [''1M-610'', ''1M-611'', ''1M-612'']"
  by (simp add: run_defs api_ok_def api_drop_def)

text \<open>
  Claim C1, amended. In every run, whether it reaches the summary or ends with an exception,
  the requests after the state query are one attempt per ticket for an initial part of the
  configured tickets, in the configured order: the ticket's issue query, then at most one
  state mutation, of the issue resolved for that ticket to the resolved state, then at most
  one comment on that issue. The configured tickets are pairwise distinct, so no ticket is
  resolved, transitioned or commented twice: no ticket is retried. If the run reaches the
  summary, the initial part is the whole list and every ticket is counted exactly once: the
  success count is the number of attempts that reached the comment, the failure count is the
  number of the others, the failed list holds exactly the tickets of the others in order,
  and the two counts add up to the number of configured tickets.
\<close>

theorem main_counts_every_ticket:
  "map fst configured_tickets = WORKER_TRACE_TICKETS @ TRACK_TICKETS
   \<and> distinct (map fst configured_tickets)
   \<and> (\<exists>segs.
        requests_of (snd (main api [])) = StatesQuery # concat segs
      \<and> length segs \<le> length configured_tickets
      \<and> (case fst (get_canceled_state_id api []) of
            Inl e \<Rightarrow> segs = []
          | Inr sid \<Rightarrow>
              attempts api sid [StatesQuery] (take (length segs) configured_tickets) segs)
      \<and> (fst (main api []) = Inr r \<longrightarrow>
           length segs = length configured_tickets
         \<and> success_count r = length (filter commented segs)
         \<and> failed_count r = length (filter (\<lambda>seg. \<not> commented seg) segs)
         \<and> failed_tickets r = failed_of configured_tickets segs
         \<and> success_count r + failed_count r = length configured_tickets))"
proof (intro conjI)
  show "map fst configured_tickets = WORKER_TRACE_TICKETS @ TRACK_TICKETS"
    by (rule configured_tickets_fst)
  show "distinct (map fst configured_tickets)"
    unfolding configured_tickets_fst
    by (simp add: WORKER_TRACE_TICKETS_def TRACK_TICKETS_def)
  let ?c1 = "''Archived as test pollution - cleanup operation 2025-12-04''"
  let ?c2 = "''Closed as duplicate tracking ticket - cleanup operation 2025-12-04''"
  let ?W = "map (\<lambda>t. (t, ?c1)) WORKER_TRACE_TICKETS"
  let ?T = "map (\<lambda>t. (t, ?c2)) TRACK_TICKETS"
  let ?b0 = "\<lparr>success_count = 0, failed_count = 0, failed_tickets = []\<rparr>"
  let ?banner = "[Print Rule, Print Title, Print Rule]"
  let ?P = "\<lambda>segs.
        requests_of (snd (main api [])) = StatesQuery # concat segs
      \<and> length segs \<le> length configured_tickets
      \<and> (case fst (get_canceled_state_id api []) of
            Inl e \<Rightarrow> segs = []
          | Inr sid \<Rightarrow>
              attempts api sid [StatesQuery] (take (length segs) configured_tickets) segs)
      \<and> (fst (main api []) = Inr r \<longrightarrow>
           length segs = length configured_tickets
         \<and> success_count r = length (filter commented segs)
         \<and> failed_count r = length (filter (\<lambda>seg. \<not> commented seg) segs)
         \<and> failed_tickets r = failed_of configured_tickets segs
         \<and> success_count r + failed_count r = length configured_tickets)"
  have cfg: "configured_tickets = ?W @ ?T"
    by (simp add: configured_tickets_def)
  obtain gres tr1 where g: "get_canceled_state_id api ?banner = (gres, tr1)"
    by (cases "get_canceled_state_id api ?banner")
  have r1: "requests_of tr1 = [StatesQuery]"
    using get_canceled_state_id_requests [of api ?banner] g by simp
  have g0: "fst (get_canceled_state_id api []) = gres"
    using get_canceled_state_id_fst [of "[]" ?banner api] g by simp
  show "\<exists>segs. ?P segs"
  proof (cases gres)
    case (Inl e)
    with g have "main api [] = (Inl e, tr1)"
      by (simp add: main_unfold)
    with r1 g0 Inl have "?P []" by simp
    then show ?thesis by blast
  next
    case (Inr sid)
    let ?p1 = "process_tickets api sid ?c1 WORKER_TRACE_TICKETS ?b0
                 (tr1 @ [Print Rule, Print Phase1Header, Print Rule])"
    have start1: "requests_of (tr1 @ [Print Rule, Print Phase1Header, Print Rule]) = [StatesQuery]"
      using r1 by (simp add: requests_of_append)
    from process_tickets_attempts [of api sid ?c1 WORKER_TRACE_TICKETS ?b0
        "tr1 @ [Print Rule, Print Phase1Header, Print Rule]"]
    obtain segs1 where
      q1: "requests_of (snd ?p1) = StatesQuery # concat segs1" and
      l1: "length segs1 \<le> length WORKER_TRACE_TICKETS" and
      a1: "attempts api sid [StatesQuery] (take (length segs1) ?W) segs1" and
      o1: "\<And>b'. fst ?p1 = Inr b' \<Longrightarrow>
            length segs1 = length WORKER_TRACE_TICKETS
          \<and> success_count b' = length (filter commented segs1)
          \<and> failed_count b' = length (filter (\<lambda>seg. \<not> commented seg) segs1)
          \<and> failed_tickets b' = failed_of ?W segs1"
      unfolding start1 by auto
    obtain pres tr2 where p1: "?p1 = (pres, tr2)"
      by (cases ?p1)
    show ?thesis
    proof (cases pres)
      case (Inl e)
      with g \<open>gres = Inr sid\<close> p1 have m: "main api [] = (Inl e, tr2)"
        by (simp add: main_unfold)
      have "take (length segs1) configured_tickets = take (length segs1) ?W"
        using l1 by (simp add: cfg)
      with a1 have "attempts api sid [StatesQuery] (take (length segs1) configured_tickets) segs1"
        by simp
      moreover have "length segs1 \<le> length configured_tickets"
        using l1 by (simp add: cfg)
      moreover have "requests_of (snd (main api [])) = StatesQuery # concat segs1"
        using q1 p1 m by simp
      moreover have "fst (main api []) \<noteq> Inr r"
        using m by simp
      ultimately have "?P segs1"
        using g0 \<open>gres = Inr sid\<close> by simp
      then show ?thesis by blast
    next
      case (Inr b1)
      with p1 o1 [of b1] have
        len1: "length segs1 = length WORKER_TRACE_TICKETS" and
        s1: "success_count b1 = length (filter commented segs1)" and
        f1: "failed_count b1 = length (filter (\<lambda>seg. \<not> commented seg) segs1)" and
        t1: "failed_tickets b1 = failed_of ?W segs1"
        by simp_all
      from a1 len1 have a1': "attempts api sid [StatesQuery] ?W segs1"
        by simp
      let ?p2 = "process_tickets api sid ?c2 TRACK_TICKETS b1
                   (tr2 @ [Print Rule, Print Phase2Header, Print Rule])"
      have start2: "requests_of (tr2 @ [Print Rule, Print Phase2Header, Print Rule])
                      = [StatesQuery] @ concat segs1"
        using q1 p1 by (simp add: requests_of_append)
      from process_tickets_attempts [of api sid ?c2 TRACK_TICKETS b1
          "tr2 @ [Print Rule, Print Phase2Header, Print Rule]"]
      obtain segs2 where
        q2: "requests_of (snd ?p2) = ([StatesQuery] @ concat segs1) @ concat segs2" and
        l2: "length segs2 \<le> length TRACK_TICKETS" and
        a2: "attempts api sid ([StatesQuery] @ concat segs1) (take (length segs2) ?T) segs2" and
        o2: "\<And>b'. fst ?p2 = Inr b' \<Longrightarrow>
              length segs2 = length TRACK_TICKETS
            \<and> success_count b' = success_count b1 + length (filter commented segs2)
            \<and> failed_count b' = failed_count b1 + length (filter (\<lambda>seg. \<not> commented seg) segs2)
            \<and> failed_tickets b' = failed_tickets b1 @ failed_of ?T segs2"
        unfolding start2 by blast
      obtain qres tr3 where p2: "?p2 = (qres, tr3)"
        by (cases ?p2)
      have req: "requests_of tr3 = StatesQuery # concat (segs1 @ segs2)"
        using q2 p2 by simp
      have len: "length (segs1 @ segs2) \<le> length configured_tickets"
        using len1 l2 by (simp add: cfg)
      have "take (length (segs1 @ segs2)) configured_tickets = ?W @ take (length segs2) ?T"
        using len1 by (simp add: cfg)
      moreover have "attempts api sid [StatesQuery] (?W @ take (length segs2) ?T) (segs1 @ segs2)"
        using a1' a2 by (rule attempts_append)
      ultimately have att: "attempts api sid [StatesQuery]
          (take (length (segs1 @ segs2)) configured_tickets) (segs1 @ segs2)"
        by simp
      have catt: "(case fst (get_canceled_state_id api []) of
            Inl e \<Rightarrow> segs1 @ segs2 = []
          | Inr sid \<Rightarrow> attempts api sid [StatesQuery]
              (take (length (segs1 @ segs2)) configured_tickets) (segs1 @ segs2))"
        unfolding g0 \<open>gres = Inr sid\<close> using att by simp
      show ?thesis
      proof (cases qres)
        case (Inl e)
        with g \<open>gres = Inr sid\<close> p1 \<open>pres = Inr b1\<close> p2 have m: "main api [] = (Inl e, tr3)"
          by (simp add: main_unfold)
        have "requests_of (snd (main api [])) = StatesQuery # concat (segs1 @ segs2)"
          using m req by simp
        moreover have "fst (main api []) \<noteq> Inr r"
          using m by simp
        ultimately have "?P (segs1 @ segs2)"
          using len catt by blast
        then show ?thesis by blast
      next
        case (Inr b2)
        with g \<open>gres = Inr sid\<close> p1 \<open>pres = Inr b1\<close> p2 have
          m: "fst (main api []) = Inr b2" and
          mtr: "requests_of (snd (main api [])) = requests_of tr3"
          by (simp_all add: main_unfold requests_of_append requests_of_print)
        from Inr p2 o2 [of b2] have
          len2: "length segs2 = length TRACK_TICKETS" and
          s2: "success_count b2 = success_count b1 + length (filter commented segs2)" and
          f2: "failed_count b2 = failed_count b1 + length (filter (\<lambda>seg. \<not> commented seg) segs2)" and
          t2: "failed_tickets b2 = failed_tickets b1 @ failed_of ?T segs2"
          by simp_all
        have full: "length (segs1 @ segs2) = length configured_tickets"
          using len1 len2 by (simp add: cfg)
        have sc: "success_count b2 = length (filter commented (segs1 @ segs2))"
          using s1 s2 by simp
        have fc: "failed_count b2 = length (filter (\<lambda>seg. \<not> commented seg) (segs1 @ segs2))"
          using f1 f2 by simp
        have ft: "failed_tickets b2 = failed_of configured_tickets (segs1 @ segs2)"
          using t1 t2 len1 by (simp add: cfg failed_of_append)
        have total: "success_count b2 + failed_count b2 = length configured_tickets"
          unfolding sc fc full [symmetric] by (rule sum_length_filter_compl)
        have mreq: "requests_of (snd (main api [])) = StatesQuery # concat (segs1 @ segs2)"
          unfolding mtr by (rule req)
        have "?P (segs1 @ segs2)"
        proof (intro conjI impI)
          assume "fst (main api []) = Inr r"
          with m have r: "r = b2" by simp
          show "length (segs1 @ segs2) = length configured_tickets" by (rule full)
          show "success_count r = length (filter commented (segs1 @ segs2))"
            unfolding r by (rule sc)
          show "failed_count r = length (filter (\<lambda>seg. \<not> commented seg) (segs1 @ segs2))"
            unfolding r by (rule fc)
          show "failed_tickets r = failed_of configured_tickets (segs1 @ segs2)"
            unfolding r by (rule ft)
          show "success_count r + failed_count r = length configured_tickets"
            unfolding r by (rule total)
        qed (rule mreq, rule len, rule catt)
        then show ?thesis by blast
      qed
    qed
  qed
qed

theorem main_counts_every_ticket_witness:
  "fst (main api_ok [])
     = Inr \<lparr>success_count = 17, failed_count = 3,
            failed_tickets = [''1M-611'', ''1M-613'', ''1M-615'']\<rparr>
   \<and> (\<exists>segs.
        requests_of (snd (main api_ok [])) = StatesQuery # concat segs
      \<and> attempts api_ok (JStr ''s1'') [StatesQuery] configured_tickets segs
      \<and> length (filter commented segs) = 17
      \<and> length (filter (\<lambda>seg. \<not> commented seg) segs) = 3
      \<and> failed_of configured_tickets segs = [''1M-611'', ''1M-613'', ''1M-615'']
      \<and> length configured_tickets = 20)"
proof -
  let ?r = "\<lparr>success_count = 17, failed_count = 3,
             failed_tickets = [''1M-611'', ''1M-613'', ''1M-615'']\<rparr>"
  have f: "fst (main api_ok []) = Inr ?r"
    by (simp add: run_defs api_ok_def)
  have s: "fst (get_canceled_state_id api_ok []) = Inr (JStr ''s1'')"
    by (simp add: get_canceled_state_id_def io_defs api_ok_def reply_defs)
  from main_counts_every_ticket [of api_ok ?r] obtain segs where
    req: "requests_of (snd (main api_ok [])) = StatesQuery # concat segs" and
    att: "(case fst (get_canceled_state_id api_ok []) of
            Inl e \<Rightarrow> segs = []
          | Inr sid \<Rightarrow>
              attempts api_ok sid [StatesQuery] (take (length segs) configured_tickets) segs)" and
    fin: "fst (main api_ok []) = Inr ?r \<longrightarrow>
           length segs = length configured_tickets
         \<and> success_count ?r = length (filter commented segs)
         \<and> failed_count ?r = length (filter (\<lambda>seg. \<not> commented seg) segs)
         \<and> failed_tickets ?r = failed_of configured_tickets segs
         \<and> success_count ?r + failed_count ?r = length configured_tickets"
    by blast
  from fin f have got: "length segs = length configured_tickets"
      "length (filter commented segs) = 17"
      "length (filter (\<lambda>seg. \<not> commented seg) segs) = 3"
      "failed_of configured_tickets segs = [''1M-611'', ''1M-613'', ''1M-615'']"
      "length configured_tickets = 20"
    by simp_all
  from att s got(1) have "attempts api_ok (JStr ''s1'') [StatesQuery] configured_tickets segs"
    by simp
  with f req got show ?thesis by blast
qed

end
